theory Spec2Isabelle
  imports Complex_Main "HOL-Library.Sublist"
begin

section \<open>Lumina gateway: data model\<close>

text \<open>
  A shallow embedding of the request pipeline of the gateway
  (\<^verbatim>\<open>apps/gateway/internal\<close>): the key service (\<^verbatim>\<open>auth/virtual_key.go\<close>), the
  relational store adapter (\<^verbatim>\<open>database/postgres.go\<close>), the cache adapter (package
  \<^verbatim>\<open>cache\<close>), the log pipeline (package \<^verbatim>\<open>logging\<close>) and the proxy dispatcher
  (\<^verbatim>\<open>proxy/handler.go\<close>).

  Go strings and byte slices are byte sequences: both are \<^typ>\<open>string\<close> here.
  A \<^verbatim>\<open>float64\<close> is the \<^typ>\<open>real\<close> number it denotes, and every \<^verbatim>\<open>float64\<close>
  operation of the Go code rounds its exact result to the nearest double (section
  ``Floating point''); the sums the relational store computes are the store's own and
  are exact here. A Go \<^verbatim>\<open>int\<close> is an \<^typ>\<open>int\<close>, a nullable pointer is an
  \<^typ>\<open>'a option\<close>, and a \<^verbatim>\<open>time.Time\<close> is a number of clock ticks.
\<close>

type_synonym bytes = string
type_synonym time = nat

text \<open>Go errors. The sentinels of \<^verbatim>\<open>auth\<close> are compared by identity in the code, so
  each is a constructor; \<^verbatim>\<open>errors.New\<close> and \<^verbatim>\<open>fmt.Errorf\<close> without \<^verbatim>\<open>%w\<close> are
  \<open>Errorf\<close>, and \<^verbatim>\<open>fmt.Errorf("...: %w", err)\<close> is \<open>Wrap\<close>. \<open>Fault c\<close> is the error
  the driver of an external store returns when the call \<open>c\<close> fails.\<close>

datatype call =
    RedisGet | RedisSet | RedisDel
  | SqlGetVirtualKeyByHash | SqlGetVirtualKeyByID | SqlGetUserProviders
  | SqlRevokeVirtualKey | SqlUpdateVirtualKey | SqlUpdateKeySpend | SqlUpsertDailyStat

datatype error =
    ErrInvalidKey
  | ErrKeyRevoked
  | ErrBudgetExceeded
  | ErrModelNotAllowed
  | ErrProviderNotFound
  | Errorf string
  | Wrap string error
  | Fault call

text \<open>\<^verbatim>\<open>models.VirtualKey\<close>, \<^verbatim>\<open>models.UserProvider\<close>, \<^verbatim>\<open>models.DailyStat\<close>,
  \<^verbatim>\<open>models.KeyConfig\<close> and \<^verbatim>\<open>models.UpdateKeyRequest\<close>.\<close>

record VirtualKey =
  vk_ID :: string
  vk_UserID :: string
  vk_Name :: string
  vk_KeyHash :: string
  vk_AllowedModels :: "string list"
  vk_BudgetLimit :: "real option"
  vk_CurrentSpend :: real
  vk_CreatedAt :: time
  vk_RevokedAt :: "time option"

record UserProvider =
  up_ID :: string
  up_UserID :: string
  up_Provider :: string
  up_APIKeyEncrypted :: bytes
  up_CreatedAt :: time
  up_UpdatedAt :: time

record DailyStat =
  ds_KeyID :: string
  ds_Date :: nat
  ds_TotalTokens :: int
  ds_TotalCost :: real

record KeyConfig =
  kc_KeyID :: string
  kc_UserID :: string
  kc_Name :: string
  kc_AllowedModels :: "string list"
  kc_Providers :: "string \<rightharpoonup> string"
  kc_BudgetLimit :: "real option"
  kc_CurrentSpend :: real

record UpdateKeyRequest =
  ukr_Name :: "string option"
  ukr_AllowedModels :: "string list option"
  ukr_BudgetLimit :: "real option"

record UsageLog =
  PromptTokens :: int
  CompletionTokens :: int
  TotalTokens :: int

record LogEntry =
  le_TraceID :: string
  le_VirtualKeyID :: string
  le_UserID :: string
  le_Model :: string
  le_Provider :: string
  le_Content :: string
  le_Usage :: UsageLog
  le_StatusCode :: int
  le_LatencyMs :: int
  le_CostUSD :: real

text \<open>The functions of Go's standard library that the key service calls and whose code
  is not part of the repository: \<^verbatim>\<open>sha256.Sum256\<close> followed by \<^verbatim>\<open>hex.EncodeToString\<close>,
  \<^verbatim>\<open>filepath.Match\<close> (its two results: matched, and the error if any), and the AES-GCM
  \<^verbatim>\<open>Seal\<close> and \<^verbatim>\<open>Open\<close> of \<^verbatim>\<open>crypto/cipher\<close> with no additional data (key, nonce,
  text; \<^verbatim>\<open>Seal\<close> gives the ciphertext with its tag, \<^verbatim>\<open>Open\<close> gives \<open>None\<close> when
  authentication fails). They are parameters of the model.\<close>

record stdlib =
  sha256_hex :: "string \<Rightarrow> string"
  filepath_Match :: "string \<Rightarrow> string \<Rightarrow> bool \<times> error option"
  gcm_Seal :: "bytes \<Rightarrow> bytes \<Rightarrow> bytes \<Rightarrow> bytes"
  gcm_Open :: "bytes \<Rightarrow> bytes \<Rightarrow> bytes \<Rightarrow> bytes option"

section \<open>Strings\<close>

text \<open>\<^verbatim>\<open>strings.HasPrefix(s, p)\<close> is \<^term>\<open>prefix p s\<close>, \<^verbatim>\<open>strings.HasSuffix(s, p)\<close> is
  \<^term>\<open>suffix p s\<close> and \<^verbatim>\<open>strings.Contains(s, p)\<close> is \<^term>\<open>sublist p s\<close>.\<close>

definition TrimSuffix :: "string \<Rightarrow> string \<Rightarrow> string" where
  "TrimSuffix s suf = (if suffix suf s then take (length s - length suf) s else s)"

definition TrimPrefix :: "string \<Rightarrow> string \<Rightarrow> string" where
  "TrimPrefix s pre = (if prefix pre s then drop (length pre) s else s)"

section \<open>Floating point\<close>

text \<open>IEEE 754 binary64 with the default rounding, which is what Go's \<^verbatim>\<open>float64\<close>
  operations do one by one (the compiler for amd64 does not fuse a multiplication with
  an addition): the exact result is rounded to the nearest number with a 53-bit
  significand in its binade, a tie going to the even significand; below \<^verbatim>\<open>2^-1022\<close> the
  spacing stays that of the lowest binade. Results beyond the largest double (overflow
  to infinity) and NaN are not modelled; no operation on token counts of 64 bits and
  the prices of the rate table reaches them.\<close>

definition roundEven :: "real \<Rightarrow> int" where
  "roundEven y =
     (let f = \<lfloor>y\<rfloor>; d = y - of_int f in
      if d < 1 / 2 then f
      else if d > 1 / 2 then f + 1
      else if even f then f else f + 1)"

definition round64 :: "real \<Rightarrow> real" where
  "round64 x =
     (if x = 0 then 0
      else
        (let k = max \<lfloor>log 2 \<bar>x\<bar>\<rfloor> (- 1022);
             u = 2 powr of_int (k - 52)
         in of_int (roundEven (x / u)) * u))"

definition f64_of_int :: "int \<Rightarrow> real" where
  "f64_of_int n = round64 (of_int n)"

definition f64_add :: "real \<Rightarrow> real \<Rightarrow> real" where
  "f64_add a b = round64 (a + b)"

definition f64_mul :: "real \<Rightarrow> real \<Rightarrow> real" where
  "f64_mul a b = round64 (a * b)"

definition f64_div :: "real \<Rightarrow> real \<Rightarrow> real" where
  "f64_div a b = round64 (a / b)"

text \<open>The unit roundoff of binary64, and the relation of a computed value \<^verbatim>\<open>y\<close> to the
  exact value \<^verbatim>\<open>x\<close> it stands for after at most \<^verbatim>\<open>n\<close> roundings of a non-negative
  quantity.\<close>

definition eps64 :: real where
  "eps64 = 1 / 2 ^ 53"

definition close_to :: "nat \<Rightarrow> real \<Rightarrow> real \<Rightarrow> bool" where
  "close_to n x y = (x * (1 - eps64) ^ n \<le> y \<and> y \<le> x * (1 + eps64) ^ n)"

section \<open>Key service: model patterns\<close>

definition matchModelPattern :: "stdlib \<Rightarrow> string \<Rightarrow> string \<Rightarrow> bool" where
  "matchModelPattern lib pattern model =
     (if pattern = ''*'' then True
      else
        (case filepath_Match lib pattern model of
           (matched, err) \<Rightarrow>
             if err = None \<and> matched then True
             else if suffix ''*'' pattern
               then (if prefix (TrimSuffix pattern ''*'') model then True else False)
               else False))"

text \<open>The loop of \<^verbatim>\<open>IsModelAllowed\<close> over \<^verbatim>\<open>config.AllowedModels\<close>.\<close>

fun anyPatternMatches :: "stdlib \<Rightarrow> string list \<Rightarrow> string \<Rightarrow> bool" where
  "anyPatternMatches lib [] model = False"
| "anyPatternMatches lib (pattern # rest) model =
     (if matchModelPattern lib pattern model then True
      else anyPatternMatches lib rest model)"

definition IsModelAllowed :: "stdlib \<Rightarrow> KeyConfig \<Rightarrow> string \<Rightarrow> bool" where
  "IsModelAllowed lib config model =
     (if length (kc_AllowedModels config) = 0 then True
      else anyPatternMatches lib (kc_AllowedModels config) model)"

section \<open>Log pipeline: ingress\<close>

definition channelSize :: nat where
  "channelSize = 1000"

text \<open>The buffered channel \<^verbatim>\<open>logChan\<close> is the list of the entries it holds, oldest
  first, with the flag that \<^verbatim>\<open>close(p.logChan)\<close> sets; \<^verbatim>\<open>batch\<close> is the shared batch.
  \<^verbatim>\<open>Log\<close> returns the pipeline and the \<^verbatim>\<open>slog\<close> lines it wrote. The \<^verbatim>\<open>select\<close> with a
  \<^verbatim>\<open>default\<close> branch sends when the buffer has room and takes the default branch
  otherwise; a send on a closed channel panics.\<close>

record Pipeline =
  logChan :: "LogEntry list"
  chanClosed :: bool
  batch :: "LogEntry list"
  flushed :: "LogEntry list list"

datatype slog = Info string string | Debug string string | Warn string string

datatype panic = SendOnClosedChannel | CloseOfClosedChannel

definition Log :: "LogEntry \<Rightarrow> Pipeline \<Rightarrow> panic + Pipeline \<times> slog list" where
  "Log entry p =
     (if chanClosed p then Inl SendOnClosedChannel
      else if length (logChan p) < channelSize
      then Inr (p\<lparr>logChan := logChan p @ [entry]\<rparr>,
                [Info ''logging entry to pipeline'' (le_TraceID entry),
                 Debug ''entry added to channel'' (le_TraceID entry)])
      else Inr (p,
                [Info ''logging entry to pipeline'' (le_TraceID entry),
                 Warn ''log channel full, dropping log entry'' (le_TraceID entry)]))"

text \<open>\<^verbatim>\<open>flush\<close> hands a batch that is not empty to \<^verbatim>\<open>bulkIndex\<close> and starts a new one;
  \<open>flushed\<close> collects the batches handed over. \<^verbatim>\<open>addToBatch\<close> appends the entry to the
  batch and flushes a batch that has reached \<open>batchSize\<close>. A worker's receive takes the
  oldest entry off the channel and adds it to the batch; on an empty channel the worker
  waits, and after \<^verbatim>\<open>Close\<close> the workers have returned: both are \<open>None\<close>.\<close>

definition batchSize :: nat where
  "batchSize = 100"

definition flush :: "Pipeline \<Rightarrow> Pipeline" where
  "flush p =
     (if length (batch p) = 0 then p
      else p\<lparr>batch := [], flushed := flushed p @ [batch p]\<rparr>)"

definition addToBatch :: "LogEntry \<Rightarrow> Pipeline \<Rightarrow> Pipeline" where
  "addToBatch entry p =
     (let p1 = p\<lparr>batch := batch p @ [entry]\<rparr> in
      if length (batch p1) \<ge> batchSize then flush p1 else p1)"

definition workerReceive :: "Pipeline \<Rightarrow> Pipeline option" where
  "workerReceive p =
     (if chanClosed p then None
      else
        (case logChan p of
           [] \<Rightarrow> None
         | entry # rest \<Rightarrow> Some (addToBatch entry (p\<lparr>logChan := rest\<rparr>))))"

text \<open>\<^verbatim>\<open>New\<close> makes the channel empty and open, with capacity \<^const>\<open>channelSize\<close>.\<close>

definition NewPipeline :: Pipeline where
  "NewPipeline = \<lparr>logChan = [], chanClosed = False, batch = [], flushed = []\<rparr>"

text \<open>\<^verbatim>\<open>Close\<close> closes \<^verbatim>\<open>done\<close> and \<^verbatim>\<open>logChan\<close>, waits for the workers and the flusher to
  return, and flushes the batch. A worker whose \<^verbatim>\<open>select\<close> finds an entry may still take
  it before it sees \<^verbatim>\<open>done\<close> closed: \<open>taken\<close> is the number of entries the workers take
  off the channel before they have all returned. Closing a closed channel panics.\<close>

fun drain :: "nat \<Rightarrow> Pipeline \<Rightarrow> Pipeline" where
  "drain 0 p = p"
| "drain (Suc n) p =
     (case logChan p of
        [] \<Rightarrow> p
      | entry # rest \<Rightarrow> drain n (addToBatch entry (p\<lparr>logChan := rest\<rparr>)))"

definition Close :: "nat \<Rightarrow> Pipeline \<Rightarrow> panic + Pipeline" where
  "Close taken p =
     (if chanClosed p then Inl CloseOfClosedChannel
      else Inr (flush ((drain taken p)\<lparr>chanClosed := True\<rparr>)))"

text \<open>A run of the pipeline: callers submit entries, workers receive, the flusher's
  ticker fires and the process shuts the pipeline down, in any order. A worker that
  finds the channel empty leaves the pipeline as it is, and after \<^verbatim>\<open>Close\<close> the flusher
  has returned.\<close>

datatype event = Submit LogEntry | Receive | Tick | Shutdown nat

fun isShutdown :: "event \<Rightarrow> bool" where
  "isShutdown (Shutdown taken) = True"
| "isShutdown ev = False"

fun run :: "event list \<Rightarrow> Pipeline \<Rightarrow> panic + Pipeline" where
  "run [] p = Inr p"
| "run (Submit entry # rest) p =
     (case Log entry p of
        Inl x \<Rightarrow> Inl x
      | Inr (p', out) \<Rightarrow> run rest p')"
| "run (Receive # rest) p =
     (case workerReceive p of
        None \<Rightarrow> run rest p
      | Some p' \<Rightarrow> run rest p')"
| "run (Tick # rest) p = run rest (if chanClosed p then p else flush p)"
| "run (Shutdown taken # rest) p =
     (case Close taken p of
        Inl x \<Rightarrow> Inl x
      | Inr p' \<Rightarrow> run rest p')"

section \<open>The external stores\<close>

text \<open>The relational store holds the tables \<^verbatim>\<open>virtual_keys\<close>, \<^verbatim>\<open>user_providers\<close> and
  \<^verbatim>\<open>daily_stats\<close>; the cache holds the \<^verbatim>\<open>key_config:<hash>\<close> entries. \<open>clock\<close> is
  \<^verbatim>\<open>NOW()\<close> and \<open>today\<close> is \<^verbatim>\<open>CURRENT_DATE\<close>. A call to a store can fail
  (connection loss, cancellation, a refused statement): \<open>faulty w c\<close> says that the call
  \<open>c\<close> fails in the world \<open>w\<close>, and a failed statement changes nothing. \<open>calls\<close> records
  every call that reached a store, in order.\<close>

record world =
  virtual_keys :: "VirtualKey list"
  user_providers :: "UserProvider list"
  daily_stats :: "DailyStat list"
  redis :: "string \<rightharpoonup> KeyConfig"
  clock :: time
  today :: nat
  faulty :: "call \<Rightarrow> bool"
  calls :: "call list"

definition attempt :: "call \<Rightarrow> world \<Rightarrow> world" where
  "attempt c w = w\<lparr>calls := calls w @ [c]\<rparr>"

subsection \<open>Cache adapter\<close>

text \<open>An entry is stored as the JSON of a \<^verbatim>\<open>KeyConfig\<close> and decoded on a read; here the
  entry is the \<^verbatim>\<open>KeyConfig\<close>. The expiry of an entry after \<^verbatim>\<open>keyConfigTTL\<close> is not
  modelled: the theorems hold for every content of the cache.\<close>

definition keyConfigPrefix :: string where
  "keyConfigPrefix = ''key_config:''"

definition cache_GetKeyConfig :: "string \<Rightarrow> world \<Rightarrow> (error + KeyConfig option) \<times> world" where
  "cache_GetKeyConfig keyHash w =
     (let key = keyConfigPrefix @ keyHash; w' = attempt RedisGet w in
      if faulty w RedisGet
      then (Inl (Wrap ''failed to get key config: '' (Fault RedisGet)), w')
      else (case redis w key of
              None \<Rightarrow> (Inr None, w')
            | Some config \<Rightarrow> (Inr (Some config), w')))"

definition cache_SetKeyConfig :: "string \<Rightarrow> KeyConfig \<Rightarrow> world \<Rightarrow> error option \<times> world" where
  "cache_SetKeyConfig keyHash config w =
     (let key = keyConfigPrefix @ keyHash; w' = attempt RedisSet w in
      if faulty w RedisSet
      then (Some (Wrap ''failed to set key config: '' (Fault RedisSet)), w')
      else (None, w'\<lparr>redis := (redis w)(key \<mapsto> config)\<rparr>))"

definition cache_DeleteKeyConfig :: "string \<Rightarrow> world \<Rightarrow> error option \<times> world" where
  "cache_DeleteKeyConfig keyHash w =
     (let key = keyConfigPrefix @ keyHash; w' = attempt RedisDel w in
      if faulty w RedisDel
      then (Some (Wrap ''failed to delete key config: '' (Fault RedisDel)), w')
      else (None, w'\<lparr>redis := (redis w)(key := None)\<rparr>))"

subsection \<open>Relational store adapter\<close>

text \<open>\<^verbatim>\<open>SELECT ... FROM virtual_keys WHERE key_hash = $1 AND revoked_at IS NULL\<close>;
  \<^verbatim>\<open>QueryRow\<close> scans the first row, and no row is \<^verbatim>\<open>(nil, nil)\<close>.\<close>

definition db_GetVirtualKeyByHash :: "string \<Rightarrow> world \<Rightarrow> (error + VirtualKey option) \<times> world" where
  "db_GetVirtualKeyByHash keyHash w =
     (let w' = attempt SqlGetVirtualKeyByHash w in
      if faulty w SqlGetVirtualKeyByHash
      then (Inl (Wrap ''failed to get virtual key: '' (Fault SqlGetVirtualKeyByHash)), w')
      else (Inr (find (\<lambda>k. vk_KeyHash k = keyHash \<and> vk_RevokedAt k = None) (virtual_keys w)), w'))"

text \<open>\<^verbatim>\<open>SELECT ... FROM virtual_keys WHERE id = $1\<close>.\<close>

definition db_GetVirtualKeyByID :: "string \<Rightarrow> world \<Rightarrow> (error + VirtualKey option) \<times> world" where
  "db_GetVirtualKeyByID id' w =
     (let w' = attempt SqlGetVirtualKeyByID w in
      if faulty w SqlGetVirtualKeyByID
      then (Inl (Wrap ''failed to get virtual key: '' (Fault SqlGetVirtualKeyByID)), w')
      else (Inr (find (\<lambda>k. vk_ID k = id') (virtual_keys w)), w'))"

text \<open>\<^verbatim>\<open>SELECT ... FROM user_providers WHERE user_id = $1\<close>.\<close>

definition db_GetUserProviders :: "string \<Rightarrow> world \<Rightarrow> (error + UserProvider list) \<times> world" where
  "db_GetUserProviders userID w =
     (let w' = attempt SqlGetUserProviders w in
      if faulty w SqlGetUserProviders
      then (Inl (Wrap ''failed to get user providers: '' (Fault SqlGetUserProviders)), w')
      else (Inr (filter (\<lambda>p. up_UserID p = userID) (user_providers w)), w'))"

text \<open>\<^verbatim>\<open>UPDATE virtual_keys SET revoked_at = NOW() WHERE id = $1\<close>.\<close>

definition db_RevokeVirtualKey :: "string \<Rightarrow> world \<Rightarrow> error option \<times> world" where
  "db_RevokeVirtualKey id' w =
     (let w' = attempt SqlRevokeVirtualKey w in
      if faulty w SqlRevokeVirtualKey
      then (Some (Wrap ''failed to revoke virtual key: '' (Fault SqlRevokeVirtualKey)), w')
      else (None, w'\<lparr>virtual_keys :=
              map (\<lambda>k. if vk_ID k = id' then k\<lparr>vk_RevokedAt := Some (clock w)\<rparr> else k)
                  (virtual_keys w)\<rparr>))"

text \<open>\<^verbatim>\<open>UpdateVirtualKey\<close> builds \<^verbatim>\<open>UPDATE virtual_keys SET ... WHERE id = $n\<close> from the
  arguments that are not nil, and returns without a statement when all are nil.
  \<open>setColumns\<close> is the \<^verbatim>\<open>SET\<close> list applied to one row.\<close>

definition setColumns ::
  "string option \<Rightarrow> string list option \<Rightarrow> real option \<Rightarrow> VirtualKey \<Rightarrow> VirtualKey" where
  "setColumns name allowedModels budgetLimit k =
     (let k1 = (case name of None \<Rightarrow> k | Some n \<Rightarrow> k\<lparr>vk_Name := n\<rparr>);
          k2 = (case allowedModels of None \<Rightarrow> k1 | Some ms \<Rightarrow> k1\<lparr>vk_AllowedModels := ms\<rparr>);
          k3 = (case budgetLimit of None \<Rightarrow> k2 | Some b \<Rightarrow> k2\<lparr>vk_BudgetLimit := Some b\<rparr>)
      in k3)"

definition db_UpdateVirtualKey ::
  "string \<Rightarrow> string option \<Rightarrow> string list option \<Rightarrow> real option \<Rightarrow> world \<Rightarrow> error option \<times> world" where
  "db_UpdateVirtualKey id' name allowedModels budgetLimit w =
     (if name = None \<and> allowedModels = None \<and> budgetLimit = None then (None, w)
      else
        (let w' = attempt SqlUpdateVirtualKey w in
         if faulty w SqlUpdateVirtualKey
         then (Some (Wrap ''failed to update virtual key: '' (Fault SqlUpdateVirtualKey)), w')
         else (None, w'\<lparr>virtual_keys :=
                 map (\<lambda>k. if vk_ID k = id' then setColumns name allowedModels budgetLimit k else k)
                     (virtual_keys w)\<rparr>)))"

text \<open>\<^verbatim>\<open>UPDATE virtual_keys SET current_spend = current_spend + $1 WHERE id = $2\<close>.\<close>

definition db_UpdateKeySpend :: "string \<Rightarrow> real \<Rightarrow> world \<Rightarrow> error option \<times> world" where
  "db_UpdateKeySpend keyID amount w =
     (let w' = attempt SqlUpdateKeySpend w in
      if faulty w SqlUpdateKeySpend
      then (Some (Wrap ''failed to update key spend: '' (Fault SqlUpdateKeySpend)), w')
      else (None, w'\<lparr>virtual_keys :=
              map (\<lambda>k. if vk_ID k = keyID then k\<lparr>vk_CurrentSpend := vk_CurrentSpend k + amount\<rparr> else k)
                  (virtual_keys w)\<rparr>))"

text \<open>\<^verbatim>\<open>INSERT INTO daily_stats ... VALUES (.., $2, CURRENT_DATE, $3, $4)
  ON CONFLICT (key_id, date) DO UPDATE SET total_tokens = total_tokens + EXCLUDED.total_tokens,
  total_cost = total_cost + EXCLUDED.total_cost\<close>.\<close>

definition db_UpsertDailyStat :: "string \<Rightarrow> int \<Rightarrow> real \<Rightarrow> world \<Rightarrow> error option \<times> world" where
  "db_UpsertDailyStat keyID tokens cost w =
     (let w' = attempt SqlUpsertDailyStat w in
      if faulty w SqlUpsertDailyStat
      then (Some (Wrap ''failed to upsert daily stat: '' (Fault SqlUpsertDailyStat)), w')
      else if \<exists>d\<in>set (daily_stats w). ds_KeyID d = keyID \<and> ds_Date d = today w
      then (None, w'\<lparr>daily_stats :=
              map (\<lambda>d. if ds_KeyID d = keyID \<and> ds_Date d = today w
                        then d\<lparr>ds_TotalTokens := ds_TotalTokens d + tokens,
                               ds_TotalCost := ds_TotalCost d + cost\<rparr>
                        else d)
                  (daily_stats w)\<rparr>)
      else (None, w'\<lparr>daily_stats := daily_stats w @
              [\<lparr>ds_KeyID = keyID, ds_Date = today w, ds_TotalTokens = tokens, ds_TotalCost = cost\<rparr>]\<rparr>))"

section \<open>Key service\<close>

text \<open>\<^verbatim>\<open>KeyService\<close> holds the handles of the two stores, which are the world here, and
  the encryption key.\<close>

record KeyService =
  encryptionKey :: bytes

text \<open>\<^verbatim>\<open>NewKeyService\<close> keeps the first 32 bytes of the configured key; the slice
  expression panics on a shorter string, which is \<open>None\<close>.\<close>

definition NewKeyService :: "string \<Rightarrow> KeyService option" where
  "NewKeyService key =
     (if length key < 32 then None else Some \<lparr>encryptionKey = take 32 key\<rparr>)"

definition virtualKeyPrefix :: string where
  "virtualKeyPrefix = ''lum_''"

definition HashKey :: "stdlib \<Rightarrow> string \<Rightarrow> string" where
  "HashKey lib virtualKey = sha256_hex lib virtualKey"

text \<open>\<^verbatim>\<open>aes.NewCipher\<close> refuses a key that is not 16, 24 or 32 bytes long, and
  \<^verbatim>\<open>gcm.NonceSize()\<close> is 12 for \<^verbatim>\<open>cipher.NewGCM\<close>.\<close>

definition nonceSize :: nat where
  "nonceSize = 12"

text \<open>\<^verbatim>\<open>Encrypt\<close>: \<open>random\<close> is what \<^verbatim>\<open>io.ReadFull(rand.Reader, nonce)\<close> gives, the
  \<open>nonceSize\<close> random bytes or \<open>None\<close> for its error; \<^verbatim>\<open>gcm.Seal(nonce, nonce, ...)\<close>
  appends the sealed text to the nonce.\<close>

definition Encrypt :: "stdlib \<Rightarrow> KeyService \<Rightarrow> bytes option \<Rightarrow> string \<Rightarrow> error + bytes" where
  "Encrypt lib s random plaintext =
     (if length (encryptionKey s) \<notin> {16, 24, 32}
      then Inl (Errorf ''crypto/aes: invalid key size'')
      else
        (case random of
           None \<Rightarrow> Inl (Errorf ''unexpected EOF'')
         | Some nonce \<Rightarrow> Inr (nonce @ gcm_Seal lib (encryptionKey s) nonce plaintext)))"

text \<open>\<^verbatim>\<open>Decrypt\<close>: the nonce is the first \<open>nonceSize\<close> bytes of the ciphertext.\<close>

definition Decrypt :: "stdlib \<Rightarrow> KeyService \<Rightarrow> bytes \<Rightarrow> error + string" where
  "Decrypt lib s ciphertext =
     (if length (encryptionKey s) \<notin> {16, 24, 32}
      then Inl (Errorf ''crypto/aes: invalid key size'')
      else if length ciphertext < nonceSize
      then Inl (Errorf ''ciphertext too short'')
      else
        (case gcm_Open lib (encryptionKey s) (take nonceSize ciphertext) (drop nonceSize ciphertext) of
           None \<Rightarrow> Inl (Errorf ''cipher: message authentication failed'')
         | Some plaintext \<Rightarrow> Inr plaintext))"

text \<open>What the key service relies on from the library's AES-GCM under a key, for nonces
  of \<open>nonceSize\<close> bytes: \<^verbatim>\<open>Open\<close> returns the plaintext of what \<^verbatim>\<open>Seal\<close> produced under
  the same nonce, and it fails when one byte of the nonce or one byte of the sealed text
  (ciphertext and tag) has been changed.\<close>

definition gcm_authentic :: "stdlib \<Rightarrow> bytes \<Rightarrow> bool" where
  "gcm_authentic lib key =
     (\<forall>nonce plaintext. length nonce = nonceSize \<longrightarrow>
        gcm_Open lib key nonce (gcm_Seal lib key nonce plaintext) = Some plaintext
        \<and> (\<forall>i b. i < nonceSize \<and> b \<noteq> nonce ! i \<longrightarrow>
              gcm_Open lib key (nonce[i := b]) (gcm_Seal lib key nonce plaintext) = None)
        \<and> (\<forall>j b. j < length (gcm_Seal lib key nonce plaintext)
                   \<and> b \<noteq> gcm_Seal lib key nonce plaintext ! j \<longrightarrow>
              gcm_Open lib key nonce ((gcm_Seal lib key nonce plaintext)[j := b]) = None))"

text \<open>The loop of \<^verbatim>\<open>ValidateKey\<close> that decrypts every provider credential into the map
  \<^verbatim>\<open>providers\<close>; it returns at the first credential that does not decrypt.\<close>

fun decryptProviders ::
  "stdlib \<Rightarrow> KeyService \<Rightarrow> UserProvider list \<Rightarrow> (string \<rightharpoonup> string) \<Rightarrow> error + (string \<rightharpoonup> string)" where
  "decryptProviders lib s [] providers = Inr providers"
| "decryptProviders lib s (p # rest) providers =
     (case Decrypt lib s (up_APIKeyEncrypted p) of
        Inl err \<Rightarrow> Inl (Wrap ''decryption error: '' err)
      | Inr realAPIKey \<Rightarrow> decryptProviders lib s rest (providers(up_Provider p \<mapsto> realAPIKey)))"

definition ValidateKey :: "stdlib \<Rightarrow> KeyService \<Rightarrow> string \<Rightarrow> world \<Rightarrow> (error + KeyConfig) \<times> world" where
  "ValidateKey lib s virtualKey w =
     (if \<not> prefix virtualKeyPrefix virtualKey then (Inl ErrInvalidKey, w)
      else
        (let keyHash = HashKey lib virtualKey in
         case cache_GetKeyConfig keyHash w of
           (Inl err, w1) \<Rightarrow> (Inl (Wrap ''cache error: '' err), w1)
         | (Inr (Some config), w1) \<Rightarrow> (Inr config, w1)
         | (Inr None, w1) \<Rightarrow>
             (case db_GetVirtualKeyByHash keyHash w1 of
                (Inl err, w2) \<Rightarrow> (Inl (Wrap ''database error: '' err), w2)
              | (Inr None, w2) \<Rightarrow> (Inl ErrInvalidKey, w2)
              | (Inr (Some key), w2) \<Rightarrow>
                  if vk_RevokedAt key \<noteq> None then (Inl ErrKeyRevoked, w2)
                  else
                    (case db_GetUserProviders (vk_UserID key) w2 of
                       (Inl err, w3) \<Rightarrow> (Inl (Wrap ''failed to get user providers: '' err), w3)
                     | (Inr userProviders, w3) \<Rightarrow>
                         (case decryptProviders lib s userProviders Map.empty of
                            Inl err \<Rightarrow> (Inl err, w3)
                          | Inr providers \<Rightarrow>
                              (let config = \<lparr>kc_KeyID = vk_ID key,
                                             kc_UserID = vk_UserID key,
                                             kc_Name = vk_Name key,
                                             kc_AllowedModels = vk_AllowedModels key,
                                             kc_Providers = providers,
                                             kc_BudgetLimit = vk_BudgetLimit key,
                                             kc_CurrentSpend = vk_CurrentSpend key\<rparr>
                               in case cache_SetKeyConfig keyHash config w3 of
                                    (_, w4) \<Rightarrow> (Inr config, w4)))))))"

definition GetProviderKey :: "KeyConfig \<Rightarrow> string \<Rightarrow> error + string" where
  "GetProviderKey config provider =
     (case kc_Providers config provider of
        None \<Rightarrow> Inl ErrProviderNotFound
      | Some apiKey \<Rightarrow> Inr apiKey)"

definition CheckBudget :: "KeyConfig \<Rightarrow> real \<Rightarrow> error option" where
  "CheckBudget config estimatedCost =
     (case kc_BudgetLimit config of
        None \<Rightarrow> None
      | Some limit \<Rightarrow>
          if f64_add (kc_CurrentSpend config) estimatedCost > limit then Some ErrBudgetExceeded
          else None)"

definition UpdateSpend :: "string \<Rightarrow> real \<Rightarrow> int \<Rightarrow> world \<Rightarrow> error option \<times> world" where
  "UpdateSpend keyID cost tokens w =
     (case db_UpdateKeySpend keyID cost w of
        (Some err, w1) \<Rightarrow> (Some err, w1)
      | (None, w1) \<Rightarrow>
          (case db_UpsertDailyStat keyID tokens cost w1 of
             (Some err, w2) \<Rightarrow> (Some err, w2)
           | (None, w2) \<Rightarrow> (None, w2)))"

definition RevokeKey :: "string \<Rightarrow> string \<Rightarrow> world \<Rightarrow> error option \<times> world" where
  "RevokeKey keyID userID w =
     (case db_GetVirtualKeyByID keyID w of
        (Inl err, w1) \<Rightarrow> (Some err, w1)
      | (Inr None, w1) \<Rightarrow> (Some (Errorf ''key not found''), w1)
      | (Inr (Some key), w1) \<Rightarrow>
          if vk_UserID key \<noteq> userID then (Some (Errorf ''unauthorized''), w1)
          else
            (case db_RevokeVirtualKey keyID w1 of
               (Some err, w2) \<Rightarrow> (Some err, w2)
             | (None, w2) \<Rightarrow>
                 (case cache_DeleteKeyConfig (vk_KeyHash key) w2 of
                    (_, w3) \<Rightarrow> (None, w3))))"

definition UpdateKey :: "string \<Rightarrow> string \<Rightarrow> UpdateKeyRequest \<Rightarrow> world \<Rightarrow> error option \<times> world" where
  "UpdateKey keyID userID req w =
     (case db_GetVirtualKeyByID keyID w of
        (Inl err, w1) \<Rightarrow> (Some err, w1)
      | (Inr None, w1) \<Rightarrow> (Some (Errorf ''key not found''), w1)
      | (Inr (Some key), w1) \<Rightarrow>
          if vk_UserID key \<noteq> userID then (Some (Errorf ''unauthorized''), w1)
          else
            (case db_UpdateVirtualKey keyID (ukr_Name req) (ukr_AllowedModels req)
                    (ukr_BudgetLimit req) w1 of
               (Some err, w2) \<Rightarrow> (Some err, w2)
             | (None, w2) \<Rightarrow>
                 (case cache_DeleteKeyConfig (vk_KeyHash key) w2 of
                    (_, w3) \<Rightarrow> (None, w3))))"

section \<open>Proxy dispatcher\<close>

text \<open>A decoded JSON value (\<^verbatim>\<open>interface{}\<close> after \<^verbatim>\<open>json.Unmarshal\<close>), and what
  reading and decoding the request body gives: \<^verbatim>\<open>io.ReadAll\<close> fails, the bytes are
  not JSON for a \<^verbatim>\<open>map[string]interface{}\<close>, or the map \<^verbatim>\<open>requestData\<close>.\<close>

datatype json =
    JNull | JBool bool | JNumber real | JString string
  | JArray "json list" | JObject "(string \<times> json) list"

datatype body = ReadError | InvalidJSON | Object "string \<rightharpoonup> json"

record Request =
  req_Authorization :: string
  req_Body :: body

text \<open>The upstream request that \<^verbatim>\<open>proxyUnified\<close> hands to \<^verbatim>\<open>httpClient.Do\<close>, and the
  two ways the admission part of \<^verbatim>\<open>proxyUnified\<close> ends: \<^verbatim>\<open>writeError\<close> with a status
  and the message of an error, or the request is sent upstream (with \<^verbatim>\<open>isStreaming\<close>).\<close>

record UpstreamRequest =
  ur_Method :: string
  ur_URL :: string
  ur_Headers :: "string \<rightharpoonup> string"
  ur_Body :: "string \<rightharpoonup> json"

datatype outcome = writeError nat error | Forwarded UpstreamRequest bool

definition openAIBaseURL :: string where
  "openAIBaseURL = ''https://api.openai.com''"

definition anthropicBaseURL :: string where
  "anthropicBaseURL = ''https://api.anthropic.com''"

definition StatusBadRequest :: nat where "StatusBadRequest = 400"
definition StatusUnauthorized :: nat where "StatusUnauthorized = 401"
definition StatusForbidden :: nat where "StatusForbidden = 403"
definition StatusInternalServerError :: nat where "StatusInternalServerError = 500"

definition quoted :: "string \<Rightarrow> string" where
  "quoted s = [CHR 0x27] @ s @ [CHR 0x27]"

text \<open>\<^verbatim>\<open>strings.SplitN(model, "/", 2)\<close> has two parts exactly when \<open>model\<close> contains a
  \<^verbatim>\<open>/\<close>: the text before the first one and the text after it.\<close>

definition parseModel :: "string \<Rightarrow> error + string \<times> string" where
  "parseModel model =
     (if CHR ''/'' \<in> set model
      then Inr (takeWhile (\<lambda>c. c \<noteq> CHR ''/'') model, tl (dropWhile (\<lambda>c. c \<noteq> CHR ''/'') model))
      else Inl (Errorf (''invalid model format: expected '' @ quoted ''provider/model''
                        @ '', got '' @ quoted model)))"

definition extractModel :: "(string \<rightharpoonup> json) \<Rightarrow> string" where
  "extractModel data = (case data ''model'' of Some (JString model) \<Rightarrow> model | _ \<Rightarrow> ''unknown'')"

definition extractAndValidateKey ::
  "stdlib \<Rightarrow> KeyService \<Rightarrow> Request \<Rightarrow> world \<Rightarrow> (error + KeyConfig) \<times> world" where
  "extractAndValidateKey lib s r w =
     (let authHeader = req_Authorization r in
      if \<not> prefix ''Bearer '' authHeader
      then (Inl (Errorf ''missing or invalid authorization header''), w)
      else ValidateKey lib s (TrimPrefix authHeader ''Bearer '') w)"

text \<open>\<^verbatim>\<open>proxyUnified\<close> up to \<^verbatim>\<open>httpClient.Do\<close>. The parameter \<open>requestType\<close> is not read
  by the body of the function. \<^verbatim>\<open>json.Marshal\<close> of the decoded map and
  \<^verbatim>\<open>http.NewRequestWithContext\<close> with a constant URL do not fail.\<close>

definition proxyUnified ::
  "stdlib \<Rightarrow> KeyService \<Rightarrow> string \<Rightarrow> string \<Rightarrow> Request \<Rightarrow> world \<Rightarrow> outcome \<times> world" where
  "proxyUnified lib s path requestType r w =
     (case extractAndValidateKey lib s r w of
        (Inl err, w1) \<Rightarrow> (writeError StatusUnauthorized err, w1)
      | (Inr keyConfig, w1) \<Rightarrow>
          (case req_Body r of
             ReadError \<Rightarrow> (writeError StatusBadRequest (Errorf ''failed to read request body''), w1)
           | InvalidJSON \<Rightarrow> (writeError StatusBadRequest (Errorf ''invalid JSON body''), w1)
           | Object requestData \<Rightarrow>
               (let modelField = extractModel requestData in
                case parseModel modelField of
                  Inl err \<Rightarrow> (writeError StatusBadRequest err, w1)
                | Inr (provider, actualModel) \<Rightarrow>
                    if \<not> IsModelAllowed lib keyConfig modelField
                    then (writeError StatusForbidden
                            (Errorf (''model '' @ quoted modelField @ '' is not allowed for this key'')), w1)
                    else
                      (case GetProviderKey keyConfig provider of
                         Inl err \<Rightarrow>
                           if err = ErrProviderNotFound
                           then (writeError StatusBadRequest
                                   (Errorf (''provider '' @ quoted provider
                                            @ '' is not configured for this key'')), w1)
                           else (writeError StatusInternalServerError
                                   (Errorf ''failed to get provider key''), w1)
                       | Inr realAPIKey \<Rightarrow>
                           (let modifiedBody = requestData(''model'' \<mapsto> JString actualModel);
                                isStreaming = (case modifiedBody ''stream'' of
                                                 Some (JBool stream) \<Rightarrow> stream
                                               | _ \<Rightarrow> False)
                            in
                            if provider = ''openai''
                            then (Forwarded
                                    \<lparr>ur_Method = ''POST'',
                                     ur_URL = openAIBaseURL @ path,
                                     ur_Headers = [''Content-Type'' \<mapsto> ''application/json'',
                                                   ''Authorization'' \<mapsto> ''Bearer '' @ realAPIKey],
                                     ur_Body = modifiedBody\<rparr> isStreaming, w1)
                            else if provider = ''anthropic''
                            then (Forwarded
                                    \<lparr>ur_Method = ''POST'',
                                     ur_URL = anthropicBaseURL @ ''/v1/messages'',
                                     ur_Headers = [''Content-Type'' \<mapsto> ''application/json'',
                                                   ''x-api-key'' \<mapsto> realAPIKey,
                                                   ''anthropic-version'' \<mapsto> ''2023-06-01''],
                                     ur_Body = modifiedBody\<rparr> isStreaming, w1)
                            else (writeError StatusBadRequest
                                    (Errorf (''unsupported provider: '' @ provider)), w1))))))"

definition ChatCompletions :: "stdlib \<Rightarrow> KeyService \<Rightarrow> Request \<Rightarrow> world \<Rightarrow> outcome \<times> world" where
  "ChatCompletions lib s r w = proxyUnified lib s ''/v1/chat/completions'' ''chat'' r w"

definition Completions :: "stdlib \<Rightarrow> KeyService \<Rightarrow> Request \<Rightarrow> world \<Rightarrow> outcome \<times> world" where
  "Completions lib s r w = proxyUnified lib s ''/v1/completions'' ''completion'' r w"

definition Embeddings :: "stdlib \<Rightarrow> KeyService \<Rightarrow> Request \<Rightarrow> world \<Rightarrow> outcome \<times> world" where
  "Embeddings lib s r w = proxyUnified lib s ''/v1/embeddings'' ''embedding'' r w"

definition AnthropicMessages :: "stdlib \<Rightarrow> KeyService \<Rightarrow> Request \<Rightarrow> world \<Rightarrow> outcome \<times> world" where
  "AnthropicMessages lib s r w = proxyUnified lib s ''/v1/messages'' ''anthropic'' r w"

subsection \<open>Cost\<close>

definition calculateCost :: "string \<Rightarrow> string \<Rightarrow> UsageLog \<Rightarrow> real" where
  "calculateCost provider model usage =
     (let actualModel = (case parseModel model of Inl err \<Rightarrow> model | Inr (_, m) \<Rightarrow> m);
          (inputPrice, outputPrice) =
            (if provider = ''openai'' then
               (if prefix ''gpt-4o'' actualModel then (2.50, 10.00)
                else if prefix ''gpt-4'' actualModel then (30.00, 60.00)
                else if prefix ''gpt-3.5'' actualModel then (0.50, 1.50)
                else if prefix ''o1'' actualModel then (15.00, 60.00)
                else (1.00, 2.00))
             else if provider = ''anthropic'' then
               (if sublist ''opus'' actualModel then (15.00, 75.00)
                else if sublist ''sonnet'' actualModel then (3.00, 15.00)
                else if sublist ''haiku'' actualModel then (0.25, 1.25)
                else (3.00, 15.00))
             else (1.00, 2.00));
          inputCost = f64_mul (f64_div (f64_of_int (PromptTokens usage)) 1000000) inputPrice;
          outputCost = f64_mul (f64_div (f64_of_int (CompletionTokens usage)) 1000000) outputPrice
      in f64_add inputCost outputCost)"

text \<open>The rate table as the specification gives it, row by row: provider, matcher on the
  model name, input and output price in USD per million tokens. The first row of the
  provider that matches is taken; a provider without rows has the rate 1.00 / 2.00.\<close>

datatype matcher = NamePrefix string | NameContains string | AnyName

fun matcherAccepts :: "matcher \<Rightarrow> string \<Rightarrow> bool" where
  "matcherAccepts (NamePrefix p) name = prefix p name"
| "matcherAccepts (NameContains p) name = sublist p name"
| "matcherAccepts AnyName name = True"

definition specRateTable :: "(string \<times> matcher \<times> real \<times> real) list" where
  "specRateTable =
     [(''openai'', NamePrefix ''gpt-4o'', 2.50, 10.00),
      (''openai'', NamePrefix ''gpt-4'', 30.00, 60.00),
      (''openai'', NamePrefix ''gpt-3.5'', 0.50, 1.50),
      (''openai'', NamePrefix ''o1'', 15.00, 60.00),
      (''openai'', AnyName, 1.00, 2.00),
      (''anthropic'', NameContains ''opus'', 15.00, 75.00),
      (''anthropic'', NameContains ''sonnet'', 3.00, 15.00),
      (''anthropic'', NameContains ''haiku'', 0.25, 1.25),
      (''anthropic'', AnyName, 3.00, 15.00)]"

definition specRate :: "string \<Rightarrow> string \<Rightarrow> real \<times> real" where
  "specRate provider name =
     (case find (\<lambda>(p, m, i, out). p = provider \<and> matcherAccepts m name) specRateTable of
        Some (p, m, i, out) \<Rightarrow> (i, out)
      | None \<Rightarrow> (1.00, 2.00))"

text \<open>The model name of a full model string: what follows the first \<^verbatim>\<open>/\<close>, or the
  string itself when it has none.\<close>

definition modelName :: "string \<Rightarrow> string" where
  "modelName model =
     (if CHR ''/'' \<in> set model then tl (dropWhile (\<lambda>c. c \<noteq> CHR ''/'') model) else model)"

text \<open>The cost as the specification words it, in exact arithmetic: prompt tokens
  divided by 1,000,000 times the input price plus completion tokens divided by
  1,000,000 times the output price, at the rate of the table.\<close>

definition specCost :: "string \<Rightarrow> string \<Rightarrow> UsageLog \<Rightarrow> real" where
  "specCost provider model usage =
     (case specRate provider (modelName model) of
        (inputPrice, outputPrice) \<Rightarrow>
          of_int (PromptTokens usage) / 1000000 * inputPrice
          + of_int (CompletionTokens usage) / 1000000 * outputPrice)"

section \<open>Concrete inputs\<close>

text \<open>A world with one virtual key of user \<^verbatim>\<open>user-1\<close>, capped at 10 USD with 20 USD
  spent, and credentials for both providers; the cache is empty and no call fails.
  \<open>exampleLib\<close> stands in for the library on these inputs: the digest of a token is the
  token behind a tag, a pattern without metacharacters matches its own text, and a
  sealed credential is a 12-byte nonce followed by the secret.\<close>

definition exampleLib :: stdlib where
  "exampleLib =
     \<lparr>sha256_hex = (\<lambda>t. ''sha256:'' @ t),
      filepath_Match = (\<lambda>p n. (p = n, None)),
      gcm_Seal = (\<lambda>k n p. p),
      gcm_Open = (\<lambda>k n c. Some c)\<rparr>"

definition exampleService :: KeyService where
  "exampleService = \<lparr>encryptionKey = replicate 32 (CHR ''k'')\<rparr>"

definition exampleKey :: VirtualKey where
  "exampleKey =
     \<lparr>vk_ID = ''key-1'', vk_UserID = ''user-1'', vk_Name = ''prod'',
      vk_KeyHash = ''sha256:lum_abc'', vk_AllowedModels = [],
      vk_BudgetLimit = Some 10, vk_CurrentSpend = 20,
      vk_CreatedAt = 0, vk_RevokedAt = None\<rparr>"

definition exampleProviders :: "UserProvider list" where
  "exampleProviders =
     [\<lparr>up_ID = ''p-1'', up_UserID = ''user-1'', up_Provider = ''openai'',
       up_APIKeyEncrypted = ''000000000000sk-openai'', up_CreatedAt = 0, up_UpdatedAt = 0\<rparr>,
      \<lparr>up_ID = ''p-2'', up_UserID = ''user-1'', up_Provider = ''anthropic'',
       up_APIKeyEncrypted = ''000000000000sk-ant'', up_CreatedAt = 0, up_UpdatedAt = 0\<rparr>]"

definition exampleWorld :: world where
  "exampleWorld =
     \<lparr>virtual_keys = [exampleKey], user_providers = exampleProviders, daily_stats = [],
      redis = Map.empty, clock = 100, today = 1, faulty = (\<lambda>c. False), calls = []\<rparr>"

text \<open>The same world with one failing call: the cache read, the cache write, the
  key-spend statement.\<close>

definition cacheReadDownWorld :: world where
  "cacheReadDownWorld = exampleWorld\<lparr>faulty := (\<lambda>c. c = RedisGet)\<rparr>"

definition cacheWriteDownWorld :: world where
  "cacheWriteDownWorld = exampleWorld\<lparr>faulty := (\<lambda>c. c = RedisSet)\<rparr>"

definition spendDownWorld :: world where
  "spendDownWorld = exampleWorld\<lparr>faulty := (\<lambda>c. c = SqlUpdateKeySpend)\<rparr>"

definition exampleConfig :: KeyConfig where
  "exampleConfig =
     \<lparr>kc_KeyID = ''key-1'', kc_UserID = ''user-1'', kc_Name = ''prod'',
      kc_AllowedModels = [],
      kc_Providers = [''openai'' \<mapsto> ''sk-openai'', ''anthropic'' \<mapsto> ''sk-ant''],
      kc_BudgetLimit = Some 10, kc_CurrentSpend = 20\<rparr>"

text \<open>The example world with the key's configuration cached and the cache refusing
  deletes.\<close>

definition staleCacheWorld :: world where
  "staleCacheWorld =
     exampleWorld\<lparr>redis := [''key_config:sha256:lum_abc'' \<mapsto> exampleConfig],
                   faulty := (\<lambda>c. c = RedisDel)\<rparr>"

text \<open>A library whose sealed text is the plaintext, the nonce and the plaintext again,
  and whose \<^verbatim>\<open>Open\<close> accepts exactly such texts under the nonce: a stand-in that has
  the property \<^const>\<open>gcm_authentic\<close>.\<close>

definition sealingLib :: stdlib where
  "sealingLib =
     exampleLib\<lparr>gcm_Seal := (\<lambda>k n p. p @ n @ p),
                 gcm_Open := (\<lambda>k n c.
                    let p = take ((length c - length n) div 2) c
                    in if c = p @ n @ p then Some p else None)\<rparr>"

definition exampleRequest :: "string \<Rightarrow> Request" where
  "exampleRequest model =
     \<lparr>req_Authorization = ''Bearer lum_abc'',
      req_Body = Object [''model'' \<mapsto> JString model]\<rparr>"

definition exampleEntry :: LogEntry where
  "exampleEntry =
     \<lparr>le_TraceID = ''trace-1'', le_VirtualKeyID = ''key-1'', le_UserID = ''user-1'',
      le_Model = ''openai/gpt-4o'', le_Provider = ''openai'', le_Content = ''hello'',
      le_Usage = \<lparr>PromptTokens = 10, CompletionTokens = 20, TotalTokens = 30\<rparr>,
      le_StatusCode = 200, le_LatencyMs = 5, le_CostUSD = 225 / 1000000\<rparr>"

section \<open>Theorems\<close>

subsection \<open>The model on the concrete inputs\<close>

lemmas example_defs = exampleLib_def exampleService_def exampleKey_def exampleProviders_def
  exampleWorld_def exampleConfig_def exampleRequest_def
  cacheReadDownWorld_def cacheWriteDownWorld_def spendDownWorld_def staleCacheWorld_def

lemmas store_defs = cache_GetKeyConfig_def cache_SetKeyConfig_def cache_DeleteKeyConfig_def
  db_GetVirtualKeyByHash_def db_GetVirtualKeyByID_def db_GetUserProviders_def
  db_RevokeVirtualKey_def db_UpdateVirtualKey_def db_UpdateKeySpend_def db_UpsertDailyStat_def
  attempt_def keyConfigPrefix_def

lemma example_ValidateKey:
  "ValidateKey exampleLib exampleService ''lum_abc'' exampleWorld =
     (Inr exampleConfig,
      exampleWorld\<lparr>redis := [''key_config:sha256:lum_abc'' \<mapsto> exampleConfig],
                    calls := [RedisGet, SqlGetVirtualKeyByHash, SqlGetUserProviders, RedisSet]\<rparr>)"
  by (simp add: ValidateKey_def virtualKeyPrefix_def HashKey_def Decrypt_def nonceSize_def
      example_defs store_defs Let_def)

lemma example_extract:
  "extractAndValidateKey exampleLib exampleService (exampleRequest model) exampleWorld =
     (Inr exampleConfig,
      exampleWorld\<lparr>redis := [''key_config:sha256:lum_abc'' \<mapsto> exampleConfig],
                    calls := [RedisGet, SqlGetVirtualKeyByHash, SqlGetUserProviders, RedisSet]\<rparr>)"
  by (simp add: extractAndValidateKey_def TrimPrefix_def exampleRequest_def example_ValidateKey)

lemma example_proxy:
  "fst (proxyUnified exampleLib exampleService path requestType
          (exampleRequest ''openai/gpt-4o'') exampleWorld) =
     Forwarded \<lparr>ur_Method = ''POST'',
                ur_URL = ''https://api.openai.com'' @ path,
                ur_Headers = [''Content-Type'' \<mapsto> ''application/json'',
                              ''Authorization'' \<mapsto> ''Bearer sk-openai''],
                ur_Body = [''model'' \<mapsto> JString ''gpt-4o'']\<rparr> False"
  by (simp add: proxyUnified_def example_extract)
     (simp add: exampleRequest_def exampleConfig_def extractModel_def parseModel_def
        IsModelAllowed_def GetProviderKey_def openAIBaseURL_def)

subsection \<open>Model patterns and log ingress\<close>

lemma anyPatternMatches_iff:
  "anyPatternMatches lib ps m = (\<exists>p\<in>set ps. matchModelPattern lib p m)"
  by (induction ps) auto

lemma TrimSuffix_star:
  "suffix ''*'' p \<Longrightarrow> TrimSuffix p ''*'' = butlast p"
  by (simp add: TrimSuffix_def butlast_conv_take)

lemma matchModelPattern_iff:
  "matchModelPattern lib p m =
     (p = ''*''
      \<or> (fst (filepath_Match lib p m) \<and> snd (filepath_Match lib p m) = None)
      \<or> (suffix ''*'' p \<and> prefix (butlast p) m))"
  by (cases "filepath_Match lib p m")
     (auto simp: matchModelPattern_def TrimSuffix_star)

text \<open>C6. \<^verbatim>\<open>IsModelAllowed(c, m)\<close> is true exactly when the allowed-patterns list of \<open>c\<close>
  is empty, or some pattern of the list is \<^verbatim>\<open>*\<close>, or is matched against \<open>m\<close> by
  \<^verbatim>\<open>filepath.Match\<close> without an error, or ends in \<^verbatim>\<open>*\<close> and is, without that last
  \<^verbatim>\<open>*\<close>, a literal prefix of \<open>m\<close>.\<close>

theorem IsModelAllowed_iff:
  "IsModelAllowed lib c m =
     (kc_AllowedModels c = []
      \<or> (\<exists>p\<in>set (kc_AllowedModels c).
            p = ''*''
            \<or> (fst (filepath_Match lib p m) \<and> snd (filepath_Match lib p m) = None)
            \<or> (suffix ''*'' p \<and> prefix (butlast p) m)))"
  by (simp add: IsModelAllowed_def anyPatternMatches_iff matchModelPattern_iff)

theorem IsModelAllowed_iff_witness:
  "IsModelAllowed exampleLib (exampleConfig\<lparr>kc_AllowedModels := [''openai/*'']\<rparr>) ''openai/gpt-4o''
   \<and> \<not> IsModelAllowed exampleLib (exampleConfig\<lparr>kc_AllowedModels := [''openai/*'']\<rparr>)
         ''anthropic/claude-3-haiku-20240307''
   \<and> IsModelAllowed exampleLib (exampleConfig\<lparr>kc_AllowedModels := [''*'']\<rparr>)
         ''anthropic/claude-3-haiku-20240307''
   \<and> IsModelAllowed exampleLib exampleConfig ''openai/gpt-4o''"
  using IsModelAllowed_iff [of exampleLib "exampleConfig\<lparr>kc_AllowedModels := [''openai/*'']\<rparr>" "''openai/gpt-4o''"]
        IsModelAllowed_iff [of exampleLib "exampleConfig\<lparr>kc_AllowedModels := [''openai/*'']\<rparr>"
                               "''anthropic/claude-3-haiku-20240307''"]
        IsModelAllowed_iff [of exampleLib "exampleConfig\<lparr>kc_AllowedModels := [''*'']\<rparr>"
                               "''anthropic/claude-3-haiku-20240307''"]
        IsModelAllowed_iff [of exampleLib exampleConfig "''openai/gpt-4o''"]
  by (simp add: exampleLib_def exampleConfig_def suffix_to_prefix)

lemma flush_channel [simp]:
  "logChan (flush p) = logChan p" "chanClosed (flush p) = chanClosed p"
  by (simp_all add: flush_def)

lemma addToBatch_channel [simp]:
  "logChan (addToBatch entry p) = logChan p" "chanClosed (addToBatch entry p) = chanClosed p"
  by (simp_all add: addToBatch_def Let_def)

lemma drain_channel:
  "length (logChan (drain n p)) \<le> length (logChan p) \<and> chanClosed (drain n p) = chanClosed p"
proof (induction n arbitrary: p)
  case 0
  then show ?case by simp
next
  case (Suc n)
  show ?case
  proof (cases "logChan p")
    case Nil
    then show ?thesis by simp
  next
    case (Cons entry rest)
    with Suc [of "addToBatch entry (p\<lparr>logChan := rest\<rparr>)"] show ?thesis by simp
  qed
qed

lemma Log_bounded:
  "Log entry p = Inr (p', out) \<Longrightarrow> length (logChan p) \<le> channelSize \<Longrightarrow>
   length (logChan p') \<le> channelSize \<and> chanClosed p' = chanClosed p"
  by (auto simp: Log_def split: if_splits)

lemma workerReceive_bounded:
  "workerReceive p = Some p' \<Longrightarrow>
   length (logChan p') \<le> length (logChan p) \<and> chanClosed p' = chanClosed p"
  by (auto simp: workerReceive_def split: if_splits list.splits)

lemma Close_bounded:
  "Close taken p = Inr p' \<Longrightarrow> length (logChan p') \<le> length (logChan p)"
  using drain_channel [of taken p] by (auto simp: Close_def split: if_splits)

lemma run_bounded:
  "length (logChan p) \<le> channelSize \<Longrightarrow> run events p = Inr p' \<Longrightarrow>
   length (logChan p') \<le> channelSize"
proof (induction events p rule: run.induct)
  case (1 p)
  then show ?case by simp
next
  case (2 entry rest p)
  then show ?case
    by (auto split: sum.splits dest: Log_bounded)
next
  case (3 rest p)
  then show ?case
    by (cases "workerReceive p") (auto dest: workerReceive_bounded)
next
  case (4 rest p)
  then show ?case by (auto split: if_splits)
next
  case (5 taken rest p)
  then show ?case
    by (auto split: sum.splits dest: Close_bounded)
qed

lemma run_open:
  "\<not> chanClosed p \<Longrightarrow> length (logChan p) \<le> channelSize \<Longrightarrow>
   \<forall>ev\<in>set events. \<not> isShutdown ev \<Longrightarrow>
   \<exists>p'. run events p = Inr p' \<and> \<not> chanClosed p' \<and> length (logChan p') \<le> channelSize"
proof (induction events p rule: run.induct)
  case (1 p)
  then show ?case by simp
next
  case (2 entry rest p)
  then show ?case
    by (auto simp: Log_def)
next
  case (3 rest p)
  show ?case
  proof (cases "workerReceive p")
    case None
    with 3 show ?thesis by simp
  next
    case (Some p1)
    with workerReceive_bounded [OF Some] 3 show ?thesis by simp
  qed
next
  case (4 rest p)
  then show ?case by simp
next
  case (5 taken rest p)
  then show ?case by simp
qed

text \<open>C9, as the code has it. On a pipeline that has not been closed, \<^verbatim>\<open>Log\<close> always
  returns: with fewer than 1,000 entries in the channel the entry is appended to it;
  with 1,000 the entry is dropped with the warning and the pipeline is unchanged; so a
  channel within its capacity stays within it. Every run of submissions, worker
  receives and ticks on a new pipeline completes with at most 1,000 entries in the
  channel, and no run at all, with or without a shutdown, ends with more.\<close>

theorem Log_never_blocks:
  assumes "\<not> chanClosed p"
  shows "(length (logChan p) < 1000 \<longrightarrow>
      Log entry p = Inr (p\<lparr>logChan := logChan p @ [entry]\<rparr>,
                         [Info ''logging entry to pipeline'' (le_TraceID entry),
                          Debug ''entry added to channel'' (le_TraceID entry)]))
   \<and> (length (logChan p) = 1000 \<longrightarrow>
      Log entry p = Inr (p, [Info ''logging entry to pipeline'' (le_TraceID entry),
                             Warn ''log channel full, dropping log entry'' (le_TraceID entry)]))
   \<and> (length (logChan p) \<le> 1000 \<longrightarrow>
      (\<exists>p' out. Log entry p = Inr (p', out) \<and> \<not> chanClosed p' \<and> length (logChan p') \<le> 1000))
   \<and> ((\<forall>ev\<in>set events. \<not> isShutdown ev) \<longrightarrow>
      (\<exists>p'. run events NewPipeline = Inr p' \<and> length (logChan p') \<le> 1000))
   \<and> (\<forall>p'. run events NewPipeline = Inr p' \<longrightarrow> length (logChan p') \<le> 1000)"
proof -
  have new: "\<not> chanClosed NewPipeline" "length (logChan NewPipeline) \<le> channelSize"
    by (simp_all add: NewPipeline_def)
  have a: "(\<forall>ev\<in>set events. \<not> isShutdown ev) \<longrightarrow>
      (\<exists>p'. run events NewPipeline = Inr p' \<and> length (logChan p') \<le> 1000)"
    using run_open [OF new] by (fastforce simp: channelSize_def)
  have b: "\<forall>p'. run events NewPipeline = Inr p' \<longrightarrow> length (logChan p') \<le> 1000"
    using run_bounded [OF new(2)] by (simp add: channelSize_def)
  from assms have "(length (logChan p) < 1000 \<longrightarrow>
      Log entry p = Inr (p\<lparr>logChan := logChan p @ [entry]\<rparr>,
                         [Info ''logging entry to pipeline'' (le_TraceID entry),
                          Debug ''entry added to channel'' (le_TraceID entry)]))
   \<and> (length (logChan p) = 1000 \<longrightarrow>
      Log entry p = Inr (p, [Info ''logging entry to pipeline'' (le_TraceID entry),
                             Warn ''log channel full, dropping log entry'' (le_TraceID entry)]))
   \<and> (length (logChan p) \<le> 1000 \<longrightarrow>
      (\<exists>p' out. Log entry p = Inr (p', out) \<and> \<not> chanClosed p' \<and> length (logChan p') \<le> 1000))"
    by (auto simp: Log_def channelSize_def)
  with a b show ?thesis by blast
qed

theorem Log_never_blocks_witness:
  "Log exampleEntry NewPipeline =
     Inr (\<lparr>logChan = [exampleEntry], chanClosed = False, batch = [], flushed = []\<rparr>,
          [Info ''logging entry to pipeline'' ''trace-1'',
           Debug ''entry added to channel'' ''trace-1''])
   \<and> Log exampleEntry
        \<lparr>logChan = replicate 1000 exampleEntry, chanClosed = False, batch = [], flushed = []\<rparr> =
     Inr (\<lparr>logChan = replicate 1000 exampleEntry, chanClosed = False, batch = [], flushed = []\<rparr>,
          [Info ''logging entry to pipeline'' ''trace-1'',
           Warn ''log channel full, dropping log entry'' ''trace-1''])
   \<and> (\<exists>p'. run (replicate 2000 (Submit exampleEntry)) NewPipeline = Inr p'
           \<and> length (logChan p') \<le> 1000)"
  using Log_never_blocks [of NewPipeline exampleEntry "replicate 2000 (Submit exampleEntry)"]
        Log_never_blocks
          [of "\<lparr>logChan = replicate 1000 exampleEntry, chanClosed = False, batch = [], flushed = []\<rparr>"
              exampleEntry "[]"]
  by (simp add: NewPipeline_def exampleEntry_def)

text \<open>The claim C9 fails on a pipeline that has been closed: its channel holds fewer
  than 1,000 entries (none), the entry is neither enqueued nor dropped with the
  warning, and \<^verbatim>\<open>Log\<close> panics on the closed channel.\<close>

theorem Log_on_closed_pipeline_panics:
  "Close 0 NewPipeline = Inr (NewPipeline\<lparr>chanClosed := True\<rparr>)
   \<and> length (logChan (NewPipeline\<lparr>chanClosed := True\<rparr>)) < 1000
   \<and> Log exampleEntry (NewPipeline\<lparr>chanClosed := True\<rparr>) = Inl SendOnClosedChannel
   \<and> run [Shutdown 0, Submit exampleEntry] NewPipeline = Inl SendOnClosedChannel"
  by (simp add: Close_def flush_def Log_def NewPipeline_def)

subsection \<open>Rounding\<close>

lemma roundEven_nearest:
  assumes "\<bar>y - of_int m\<bar> < 1 / 2"
  shows "roundEven y = m"
proof -
  from assms have "of_int m - 1 / 2 < y" "y < of_int m + 1 / 2"
    by linarith+
  then have "\<lfloor>y\<rfloor> = m \<and> y - of_int m < 1 / 2 \<or> \<lfloor>y\<rfloor> = m - 1 \<and> y - of_int (m - 1) > 1 / 2"
    by (cases "of_int m \<le> y") (auto simp: floor_eq_iff)
  then show ?thesis
    by (auto simp: roundEven_def Let_def)
qed

lemma binade:
  assumes "2 powr of_int k \<le> \<bar>x\<bar>" "\<bar>x\<bar> < 2 powr of_int (k + 1)"
  shows "\<lfloor>log 2 \<bar>x\<bar>\<rfloor> = k"
proof -
  have pos: "0 < \<bar>x\<bar>"
    using assms(1) by (smt (verit) powr_gt_zero)
  have "of_int k \<le> log 2 \<bar>x\<bar>"
    using assms(1) pos by (simp add: le_log_iff)
  moreover have "log 2 \<bar>x\<bar> < of_int k + 1"
    using assms(2) pos by (simp add: log_less_iff)
  ultimately show ?thesis
    by (simp add: floor_eq_iff)
qed

text \<open>Rounding a number of the binade \<open>k\<close>: the result is the multiple of
  \<^verbatim>\<open>2^(k-52)\<close> nearest to it, when that is not a tie.\<close>

lemma round64_normal:
  assumes "2 powr of_int k \<le> \<bar>x\<bar>" "\<bar>x\<bar> < 2 powr of_int (k + 1)" "- 1022 \<le> k"
      and "\<bar>x / 2 powr of_int (k - 52) - of_int m\<bar> < 1 / 2"
  shows "round64 x = of_int m * 2 powr of_int (k - 52)"
proof -
  have "x \<noteq> 0"
    using assms(1) by (smt (verit) powr_gt_zero)
  moreover have "max \<lfloor>log 2 \<bar>x\<bar>\<rfloor> (- 1022) = k"
    using binade [OF assms(1,2)] assms(3) by simp
  ultimately show ?thesis
    using roundEven_nearest [OF assms(4)] by (simp add: round64_def Let_def)
qed

text \<open>The five roundings of the cost of 10 prompt and 20 completion tokens at the
  prices 2.50 and 10.00, and the sum 20 + 0 of the budget check.\<close>

lemma round64_20: "round64 20 = 20"
  using round64_normal [of 4 20 "20 * 2 ^ 48"]
  by (simp add: powr_minus_divide)

lemma f64_of_int_10: "f64_of_int 10 = 10"
  using round64_normal [of 3 10 "10 * 2 ^ 49"]
  by (simp add: f64_of_int_def powr_minus_divide)

lemma f64_of_int_20: "f64_of_int 20 = 20"
  using round64_normal [of 4 20 "20 * 2 ^ 48"]
  by (simp add: f64_of_int_def powr_minus_divide)

lemma f64_div_10:
  "f64_div 10 1000000 = 5902958103587057 / 590295810358705651712"
  using round64_normal [of "- 17" "10 / 1000000" 5902958103587057]
  by (simp add: f64_div_def powr_minus_divide)

lemma f64_div_20:
  "f64_div 20 1000000 = 5902958103587057 / 295147905179352825856"
  using round64_normal [of "- 16" "20 / 1000000" 5902958103587057]
  by (simp add: f64_div_def powr_minus_divide)

lemma f64_mul_inputCost:
  "f64_mul (5902958103587057 / 590295810358705651712) (5 / 2) =
     7378697629483821 / 295147905179352825856"
  using round64_normal
          [of "- 16" "5902958103587057 / 590295810358705651712 * (5 / 2)" 7378697629483821]
  by (simp add: f64_mul_def powr_minus_divide)

lemma f64_mul_outputCost:
  "f64_mul (5902958103587057 / 295147905179352825856) 10 =
     7378697629483821 / 36893488147419103232"
  using round64_normal
          [of "- 13" "5902958103587057 / 295147905179352825856 * 10" 7378697629483821]
  by (simp add: f64_mul_def powr_minus_divide)

lemma f64_add_cost:
  "f64_add (7378697629483821 / 295147905179352825856) (7378697629483821 / 36893488147419103232) =
     8301034833169299 / 36893488147419103232"
  using round64_normal
          [of "- 13" "7378697629483821 / 295147905179352825856 + 7378697629483821 / 36893488147419103232"
              8301034833169299]
  by (simp add: f64_add_def powr_minus_divide)

text \<open>The error of one rounding is at most half a unit in the last place, so at most
  the fraction \<^verbatim>\<open>2^-53\<close> of a normal number; four roundings of non-negative quantities
  stay within the fraction \<^verbatim>\<open>2^-50\<close>.\<close>

lemma roundEven_error: "\<bar>of_int (roundEven y) - y\<bar> \<le> 1 / 2"
proof -
  have "of_int \<lfloor>y\<rfloor> \<le> y" "y < of_int \<lfloor>y\<rfloor> + 1"
    by linarith+
  then show ?thesis
    by (auto simp: roundEven_def Let_def)
qed

lemma round64_relative:
  assumes "2 powr (- 1022) \<le> \<bar>x\<bar>"
  shows "\<bar>round64 x - x\<bar> \<le> \<bar>x\<bar> * eps64"
proof -
  define k where "k = \<lfloor>log 2 \<bar>x\<bar>\<rfloor>"
  define u :: real where "u = 2 powr of_int (k - 52)"
  have pos: "0 < \<bar>x\<bar>"
    using assms by (smt (verit) powr_gt_zero)
  then have nz: "x \<noteq> 0" by simp
  have "- 1022 \<le> log 2 \<bar>x\<bar>"
    using assms pos by (simp add: le_log_iff)
  then have k: "- 1022 \<le> k"
    unfolding k_def by (simp add: le_floor_iff)
  have "of_int k \<le> log 2 \<bar>x\<bar>"
    unfolding k_def by simp
  then have low: "2 powr of_int k \<le> \<bar>x\<bar>"
    using pos by (simp add: le_log_iff)
  have u: "0 < u" by (simp add: u_def)
  have m: "max \<lfloor>log 2 \<bar>x\<bar>\<rfloor> (- 1022) = k"
    using k by (simp add: k_def)
  have r: "round64 x = of_int (roundEven (x / u)) * u"
    using nz by (simp add: round64_def Let_def m u_def)
  have "round64 x - x = (of_int (roundEven (x / u)) - x / u) * u"
    using u by (simp add: r field_simps)
  then have "\<bar>round64 x - x\<bar> = \<bar>of_int (roundEven (x / u)) - x / u\<bar> * u"
    using u by (simp add: abs_mult)
  also have "\<dots> \<le> 1 / 2 * u"
    using roundEven_error [of "x / u"] u by (intro mult_right_mono) simp_all
  also have "1 / 2 * u = 2 powr of_int k * eps64"
    by (simp add: u_def eps64_def powr_diff powr_numeral)
  also have "\<dots> \<le> \<bar>x\<bar> * eps64"
    using low by (intro mult_right_mono) (simp_all add: eps64_def)
  finally show ?thesis .
qed

lemma eps64_bounds: "0 < eps64" "eps64 \<le> 1 / 2"
  by (simp_all add: eps64_def)

lemma tiny: "2 powr (- 1022) \<le> (1 / 32000000 :: real)"
proof -
  have "(2::real) powr (- 1022) \<le> 2 powr (- 30)"
    by (intro powr_mono) simp_all
  also have "\<dots> \<le> 1 / 32000000"
    by (simp add: powr_minus_divide)
  finally show ?thesis .
qed

lemma round64_zero: "round64 0 = 0"
  by (simp add: round64_def)

lemma close_round:
  assumes "c \<le> x" "1 / 32000000 \<le> c"
  shows "close_to 1 x (round64 x) \<and> c / 2 \<le> round64 x"
proof -
  from assms have x: "0 < x" "2 powr (- 1022) \<le> \<bar>x\<bar>"
    using tiny by linarith+
  from round64_relative [OF x(2)] x(1)
  have "\<bar>round64 x - x\<bar> \<le> x * eps64"
    by simp
  then have lo: "x - x * eps64 \<le> round64 x" and hi: "round64 x \<le> x + x * eps64"
    by linarith+
  have "x * eps64 \<le> x * (1 / 2)"
    using x(1) eps64_bounds by (intro mult_left_mono) simp_all
  with lo assms have "c / 2 \<le> round64 x"
    by linarith
  with lo hi show ?thesis
    by (simp add: close_to_def algebra_simps)
qed

lemma close_zero: "close_to n 0 0"
  by (simp add: close_to_def)

lemma close_trans:
  assumes "close_to m x y" "close_to n y z"
  shows "close_to (m + n) x z"
proof -
  have p: "0 \<le> (1 - eps64) ^ n" "0 \<le> (1 + eps64) ^ n"
    using eps64_bounds by simp_all
  from assms(1) have "x * (1 - eps64) ^ m * (1 - eps64) ^ n \<le> y * (1 - eps64) ^ n"
    and "y * (1 + eps64) ^ n \<le> x * (1 + eps64) ^ m * (1 + eps64) ^ n"
    using p by (simp_all add: close_to_def mult_right_mono)
  with assms(2) show ?thesis
    by (simp add: close_to_def power_add mult.assoc)
qed

lemma close_scale:
  assumes "close_to n x y" "0 \<le> c"
  shows "close_to n (x * c) (y * c)"
  using assms mult_right_mono [of "x * (1 - eps64) ^ n" y c] mult_right_mono [of y "x * (1 + eps64) ^ n" c]
  by (simp add: close_to_def mult.assoc mult.left_commute mult.commute)

lemma close_add:
  assumes "close_to n a a'" "close_to n b b'"
  shows "close_to n (a + b) (a' + b')"
  using assms by (simp add: close_to_def algebra_simps)

lemma close_final:
  assumes "close_to 4 x y" "0 \<le> x"
  shows "\<bar>y - x\<bar> \<le> x / 2 ^ 50"
proof -
  have lo: "1 - 1 / 2 ^ 50 \<le> (1 - eps64) ^ 4" and hi: "(1 + eps64) ^ 4 \<le> 1 + 1 / 2 ^ 50"
    by (simp_all add: eps64_def power_divide)
  from assms have "x * (1 - 1 / 2 ^ 50) \<le> y"
    using mult_left_mono [OF lo assms(2)] by (simp add: close_to_def)
  then have 1: "x - y \<le> x / 2 ^ 50"
    by (simp add: algebra_simps)
  from assms have "y \<le> x * (1 + 1 / 2 ^ 50)"
    using mult_left_mono [OF hi assms(2)] by (simp add: close_to_def)
  then have 2: "y - x \<le> x / 2 ^ 50"
    by (simp add: algebra_simps)
  from 1 2 show ?thesis
    unfolding abs_le_iff by simp
qed

text \<open>One side of the cost.\<close>

lemma side_bound:
  assumes "0 \<le> n" "1 / 4 \<le> price"
  shows "close_to 3 (of_int n * price / 1000000)
           (f64_mul (f64_div (f64_of_int n) 1000000) price)
       \<and> (f64_mul (f64_div (f64_of_int n) 1000000) price = 0
            \<or> 1 / 32000000 \<le> f64_mul (f64_div (f64_of_int n) 1000000) price)"
proof (cases "n = 0")
  case True
  then show ?thesis
    by (simp add: f64_mul_def f64_div_def f64_of_int_def close_zero round64_zero)
next
  case False
  with assms(1) have n: "(1::real) \<le> of_int n"
    by simp
  define a where "a = round64 (of_int n)"
  define q where "q = round64 (a / 1000000)"
  define v where "v = round64 (q * price)"
  have a: "close_to 1 (of_int n) a" "1 / 2 \<le> a"
    using close_round [OF n] by (simp_all add: a_def)
  have "1 / 2000000 \<le> a / 1000000"
    using a(2) by simp
  from close_round [OF this]
  have q: "close_to 1 (a / 1000000) q" "1 / 4000000 \<le> q"
    by (simp_all add: q_def)
  have "close_to 1 (of_int n * (1 / 1000000)) (a * (1 / 1000000))"
    using a(1) by (intro close_scale) simp_all
  with q(1) have q2: "close_to 2 (of_int n / 1000000) q"
    using close_trans [of 1 "of_int n / 1000000" "a / 1000000" 1 q]
    by (simp add: eval_nat_numeral)
  have "1 / 4000000 * (1 / 4) \<le> q * price"
    using q(2) assms(2) by (intro mult_mono) simp_all
  then have "1 / 16000000 \<le> q * price"
    by simp
  from close_round [OF this]
  have v: "close_to 1 (q * price) v" "1 / 32000000 \<le> v"
    by (simp_all add: v_def)
  have "close_to 2 (of_int n / 1000000 * price) (q * price)"
    using q2 assms(2) by (intro close_scale) simp_all
  with v(1) have "close_to 3 (of_int n * price / 1000000) v"
    using close_trans [of 2 "of_int n / 1000000 * price" "q * price" 1 v]
    by (simp add: eval_nat_numeral)
  with v(2) show ?thesis
    by (simp add: f64_mul_def f64_div_def f64_of_int_def a_def q_def v_def)
qed

lemma cost_bound:
  assumes "0 \<le> pt" "0 \<le> ct" "1 / 4 \<le> inputPrice" "1 / 4 \<le> outputPrice"
  shows "\<bar>f64_add (f64_mul (f64_div (f64_of_int pt) 1000000) inputPrice)
                 (f64_mul (f64_div (f64_of_int ct) 1000000) outputPrice)
          - (of_int pt * inputPrice / 1000000 + of_int ct * outputPrice / 1000000)\<bar>
         \<le> (of_int pt * inputPrice / 1000000 + of_int ct * outputPrice / 1000000) / 2 ^ 50"
proof -
  define ic where "ic = f64_mul (f64_div (f64_of_int pt) 1000000) inputPrice"
  define oc where "oc = f64_mul (f64_div (f64_of_int ct) 1000000) outputPrice"
  define A where "A = of_int pt * inputPrice / 1000000"
  define B where "B = of_int ct * outputPrice / 1000000"
  have ic: "close_to 3 A ic" "ic = 0 \<or> 1 / 32000000 \<le> ic"
    using side_bound [OF assms(1,3)] by (simp_all add: ic_def A_def)
  have oc: "close_to 3 B oc" "oc = 0 \<or> 1 / 32000000 \<le> oc"
    using side_bound [OF assms(2,4)] by (simp_all add: oc_def B_def)
  have AB: "0 \<le> A + B"
    using assms by (simp add: A_def B_def)
  have s3: "close_to 3 (A + B) (ic + oc)"
    using ic(1) oc(1) by (rule close_add)
  have "close_to 1 (ic + oc) (round64 (ic + oc))"
  proof (cases "ic + oc = 0")
    case True
    then show ?thesis by (simp add: close_zero round64_zero)
  next
    case False
    with ic(2) oc(2) have "1 / 32000000 \<le> ic + oc"
      by auto
    from close_round [OF this] show ?thesis
      by simp
  qed
  with s3 have "close_to 4 (A + B) (round64 (ic + oc))"
    using close_trans [of 3 "A + B" "ic + oc" 1] by (simp add: eval_nat_numeral)
  from close_final [OF this AB] show ?thesis
    by (simp add: f64_add_def ic_def oc_def A_def B_def)
qed

lemma specRate_prices:
  "1 / 4 \<le> fst (specRate provider name) \<and> 1 / 4 \<le> snd (specRate provider name)"
  by (simp add: specRate_def specRateTable_def)

lemma example_calculateCost:
  "calculateCost ''openai'' ''openai/gpt-4o''
     \<lparr>PromptTokens = 10, CompletionTokens = 20, TotalTokens = 30\<rparr> =
   8301034833169299 / 36893488147419103232"
proof -
  have "calculateCost ''openai'' ''openai/gpt-4o''
          \<lparr>PromptTokens = 10, CompletionTokens = 20, TotalTokens = 30\<rparr> =
        f64_add (f64_mul (f64_div (f64_of_int 10) 1000000) (5 / 2))
                (f64_mul (f64_div (f64_of_int 20) 1000000) 10)"
    by (simp add: calculateCost_def parseModel_def Let_def)
  also have "\<dots> = 8301034833169299 / 36893488147419103232"
    by (simp only: f64_of_int_10 f64_of_int_20 f64_div_10 f64_div_20
        f64_mul_inputCost f64_mul_outputCost f64_add_cost)
  finally show ?thesis .
qed

subsection \<open>Cost\<close>

text \<open>C8, as the code has it. The cost \<^verbatim>\<open>calculateCost\<close> computes is the \<^verbatim>\<open>float64\<close>
  value of prompt tokens divided by 1,000,000 times the input price plus completion
  tokens divided by 1,000,000 times the output price, every operation rounded to the
  nearest double, with the prices of the specification's rate table for the provider
  and the model name; for token counts that are not negative it differs from the exact
  value of that formula by at most the fraction \<^verbatim>\<open>2^-50\<close> of the exact value; 10 prompt and
  20 completion tokens on \<^verbatim>\<open>openai/gpt-4o\<close> cost 8301034833169299 / 2^65 USD, the double
  printed as 0.00022500000000000002, which is 483 / 23058430092136939520000 above
  2.25e-4.\<close>

theorem calculateCost_float64:
  "calculateCost provider model usage =
     (case specRate provider (modelName model) of
        (inputPrice, outputPrice) \<Rightarrow>
          f64_add
            (f64_mul (f64_div (f64_of_int (PromptTokens usage)) 1000000) inputPrice)
            (f64_mul (f64_div (f64_of_int (CompletionTokens usage)) 1000000) outputPrice))
   \<and> (0 \<le> PromptTokens usage \<and> 0 \<le> CompletionTokens usage \<longrightarrow>
        \<bar>calculateCost provider model usage - specCost provider model usage\<bar>
          \<le> specCost provider model usage / 2 ^ 50)
   \<and> calculateCost ''openai'' ''openai/gpt-4o''
        \<lparr>PromptTokens = 10, CompletionTokens = 20, TotalTokens = 30\<rparr> =
      8301034833169299 / 2 ^ 65
   \<and> calculateCost ''openai'' ''openai/gpt-4o''
        \<lparr>PromptTokens = 10, CompletionTokens = 20, TotalTokens = 30\<rparr> - 225 / 1000000 =
      483 / 23058430092136939520000"
proof -
  obtain inputPrice outputPrice
    where rate: "specRate provider (modelName model) = (inputPrice, outputPrice)"
    by (cases "specRate provider (modelName model)")
  have prices: "1 / 4 \<le> inputPrice" "1 / 4 \<le> outputPrice"
    using specRate_prices [of provider "modelName model"] by (simp_all add: rate)
  have code: "calculateCost provider model usage =
     (case specRate provider (modelName model) of
        (inputPrice, outputPrice) \<Rightarrow>
          f64_add
            (f64_mul (f64_div (f64_of_int (PromptTokens usage)) 1000000) inputPrice)
            (f64_mul (f64_div (f64_of_int (CompletionTokens usage)) 1000000) outputPrice))"
    by (simp add: calculateCost_def specRate_def specRateTable_def modelName_def parseModel_def
        Let_def)
  have bound: "\<bar>calculateCost provider model usage - specCost provider model usage\<bar>
          \<le> specCost provider model usage / 2 ^ 50"
    if "0 \<le> PromptTokens usage" "0 \<le> CompletionTokens usage"
    using cost_bound [OF that prices] by (simp add: code rate specCost_def)
  have example: "calculateCost ''openai'' ''openai/gpt-4o''
        \<lparr>PromptTokens = 10, CompletionTokens = 20, TotalTokens = 30\<rparr> =
      8301034833169299 / 2 ^ 65
   \<and> calculateCost ''openai'' ''openai/gpt-4o''
        \<lparr>PromptTokens = 10, CompletionTokens = 20, TotalTokens = 30\<rparr> - 225 / 1000000 =
      483 / 23058430092136939520000"
    by (simp add: example_calculateCost)
  from code bound example show ?thesis
    by blast
qed

text \<open>The bound at the example: 10 prompt and 20 completion tokens on
  \<^verbatim>\<open>openai/gpt-4o\<close>, whose exact cost is 2.25e-4.\<close>

theorem calculateCost_float64_witness:
  "0 \<le> PromptTokens \<lparr>PromptTokens = 10, CompletionTokens = 20, TotalTokens = 30\<rparr>
   \<and> 0 \<le> CompletionTokens \<lparr>PromptTokens = 10, CompletionTokens = 20, TotalTokens = 30\<rparr>
   \<and> specCost ''openai'' ''openai/gpt-4o''
        \<lparr>PromptTokens = 10, CompletionTokens = 20, TotalTokens = 30\<rparr> = 225 / 1000000
   \<and> \<bar>calculateCost ''openai'' ''openai/gpt-4o''
          \<lparr>PromptTokens = 10, CompletionTokens = 20, TotalTokens = 30\<rparr>
        - specCost ''openai'' ''openai/gpt-4o''
          \<lparr>PromptTokens = 10, CompletionTokens = 20, TotalTokens = 30\<rparr>\<bar>
       \<le> specCost ''openai'' ''openai/gpt-4o''
          \<lparr>PromptTokens = 10, CompletionTokens = 20, TotalTokens = 30\<rparr> / 2 ^ 50"
proof -
  have "specCost ''openai'' ''openai/gpt-4o''
        \<lparr>PromptTokens = 10, CompletionTokens = 20, TotalTokens = 30\<rparr> = 225 / 1000000"
    by (simp add: specCost_def specRate_def specRateTable_def modelName_def)
  with calculateCost_float64 [of "''openai''" "''openai/gpt-4o''"
      "\<lparr>PromptTokens = 10, CompletionTokens = 20, TotalTokens = 30\<rparr>"]
  show ?thesis
    by simp
qed

text \<open>The claim C8 fails at its own example: the cost computed for 10 prompt and 20
  completion tokens on \<^verbatim>\<open>openai/gpt-4o\<close> is not 2.25e-4, and it is not the double
  nearest to 2.25e-4 (4150517416584649 / 2^64) either.\<close>

theorem calculateCost_example_not_exact:
  "calculateCost ''openai'' ''openai/gpt-4o''
     \<lparr>PromptTokens = 10, CompletionTokens = 20, TotalTokens = 30\<rparr> \<noteq> 225 / 1000000
   \<and> calculateCost ''openai'' ''openai/gpt-4o''
     \<lparr>PromptTokens = 10, CompletionTokens = 20, TotalTokens = 30\<rparr> \<noteq> 4150517416584649 / 2 ^ 64"
  by (simp add: example_calculateCost)

subsection \<open>Budget\<close>

text \<open>C1. The admission path does not consult the budget: for the key of the example
  world (cap 10, spend 20) \<^verbatim>\<open>CheckBudget\<close> with the estimated cost 0 answers
  \<^verbatim>\<open>ErrBudgetExceeded\<close>, and \<^verbatim>\<open>ChatCompletions\<close> still sends the request upstream;
  \<^verbatim>\<open>proxyUnified\<close> has no call of \<^verbatim>\<open>CheckBudget\<close>.\<close>

theorem ChatCompletions_forwards_over_budget:
  "fst (ValidateKey exampleLib exampleService ''lum_abc'' exampleWorld) = Inr exampleConfig
   \<and> CheckBudget exampleConfig 0 = Some ErrBudgetExceeded
   \<and> fst (ChatCompletions exampleLib exampleService (exampleRequest ''openai/gpt-4o'') exampleWorld) =
       Forwarded \<lparr>ur_Method = ''POST'',
                  ur_URL = ''https://api.openai.com/v1/chat/completions'',
                  ur_Headers = [''Content-Type'' \<mapsto> ''application/json'',
                                ''Authorization'' \<mapsto> ''Bearer sk-openai''],
                  ur_Body = [''model'' \<mapsto> JString ''gpt-4o'']\<rparr> False"
  by (simp add: ChatCompletions_def example_proxy example_ValidateKey)
     (simp add: CheckBudget_def exampleConfig_def f64_add_def round64_20)

subsection \<open>Validation and the cache\<close>

lemma decryptProviders_error:
  "decryptProviders lib s ps m = Inl e \<Longrightarrow> \<exists>e'. e = Wrap ''decryption error: '' e'"
  by (induction ps arbitrary: m) (auto split: sum.splits)

lemma find_satisfies: "find P xs = Some x \<Longrightarrow> P x"
  by (auto simp: find_Some_iff)

lemma ValidateKey_never_revoked:
  "fst (ValidateKey lib s t w) \<noteq> Inl ErrKeyRevoked"
  by (auto simp: ValidateKey_def cache_GetKeyConfig_def db_GetVirtualKeyByHash_def
      db_GetUserProviders_def cache_SetKeyConfig_def attempt_def Let_def
      split: option.splits sum.splits prod.splits
      dest: decryptProviders_error find_satisfies)

text \<open>C2, as the code has it. A cache read that fails is fatal: \<^verbatim>\<open>ValidateKey\<close> returns
  the cache error and does not consult the durable store. The durable store is the
  fallback of a cache miss: when the read finds no entry and the store holds a
  non-revoked key for the hash whose provider credentials load and decrypt, the key
  configuration is returned, whether or not the write back to the cache succeeds.\<close>

theorem ValidateKey_cache_read_failure:
  assumes "prefix virtualKeyPrefix virtualKey"
  shows "(faulty w RedisGet \<longrightarrow>
      ValidateKey lib s virtualKey w =
        (Inl (Wrap ''cache error: '' (Wrap ''failed to get key config: '' (Fault RedisGet))),
         w\<lparr>calls := calls w @ [RedisGet]\<rparr>))
   \<and> (\<not> faulty w RedisGet
       \<and> redis w (keyConfigPrefix @ HashKey lib virtualKey) = None
       \<and> \<not> faulty w SqlGetVirtualKeyByHash
       \<and> find (\<lambda>k. vk_KeyHash k = HashKey lib virtualKey \<and> vk_RevokedAt k = None)
               (virtual_keys w) = Some key
       \<and> \<not> faulty w SqlGetUserProviders
       \<and> decryptProviders lib s
            (filter (\<lambda>p. up_UserID p = vk_UserID key) (user_providers w)) Map.empty = Inr providers
      \<longrightarrow> fst (ValidateKey lib s virtualKey w) =
        Inr \<lparr>kc_KeyID = vk_ID key, kc_UserID = vk_UserID key, kc_Name = vk_Name key,
             kc_AllowedModels = vk_AllowedModels key, kc_Providers = providers,
             kc_BudgetLimit = vk_BudgetLimit key, kc_CurrentSpend = vk_CurrentSpend key\<rparr>)"
  using assms
  by (auto simp: ValidateKey_def cache_GetKeyConfig_def db_GetVirtualKeyByHash_def
      db_GetUserProviders_def cache_SetKeyConfig_def attempt_def Let_def
      split: option.splits sum.splits prod.splits dest: find_satisfies)

theorem ValidateKey_cache_read_failure_witness:
  "ValidateKey exampleLib exampleService ''lum_abc'' cacheReadDownWorld =
     (Inl (Wrap ''cache error: '' (Wrap ''failed to get key config: '' (Fault RedisGet))),
      cacheReadDownWorld\<lparr>calls := [RedisGet]\<rparr>)
   \<and> fst (ValidateKey exampleLib exampleService ''lum_abc'' cacheWriteDownWorld) = Inr exampleConfig"
  using ValidateKey_cache_read_failure
          [where virtualKey = "''lum_abc''" and w = cacheReadDownWorld and lib = exampleLib
             and s = exampleService]
        ValidateKey_cache_read_failure
          [where virtualKey = "''lum_abc''" and w = cacheWriteDownWorld and lib = exampleLib
             and s = exampleService and key = exampleKey
             and providers = "[''openai'' \<mapsto> ''sk-openai'', ''anthropic'' \<mapsto> ''sk-ant'']"]
  by (simp add: virtualKeyPrefix_def HashKey_def Decrypt_def nonceSize_def example_defs
      keyConfigPrefix_def)

text \<open>The claim C2 fails where the cache read fails: the store holds the valid key of
  the token, and \<^verbatim>\<open>ValidateKey\<close> returns the cache error.\<close>

theorem ValidateKey_cache_failure_is_fatal:
  "fst (db_GetVirtualKeyByHash (HashKey exampleLib ''lum_abc'') cacheReadDownWorld) =
     Inr (Some exampleKey)
   \<and> vk_RevokedAt exampleKey = None
   \<and> fst (ValidateKey exampleLib exampleService ''lum_abc'' cacheReadDownWorld) =
     Inl (Wrap ''cache error: '' (Wrap ''failed to get key config: '' (Fault RedisGet)))"
  by (simp add: ValidateKey_def virtualKeyPrefix_def HashKey_def example_defs store_defs Let_def)

subsection \<open>Spend\<close>

text \<open>C3, as the code has it. \<^verbatim>\<open>UpdateSpend\<close> attempts the key-spend increment first
  and the daily-stat upsert only after the increment succeeded: when the increment
  fails its error is returned and no other call is made; when it succeeds both calls
  are made, and a failure of the upsert is returned without undoing the increment.\<close>

theorem UpdateSpend_stops_at_first_failure:
  "(faulty w SqlUpdateKeySpend \<longrightarrow>
      UpdateSpend keyID cost tokens w =
        (Some (Wrap ''failed to update key spend: '' (Fault SqlUpdateKeySpend)),
         w\<lparr>calls := calls w @ [SqlUpdateKeySpend]\<rparr>))
   \<and> (\<not> faulty w SqlUpdateKeySpend \<longrightarrow>
      calls (snd (UpdateSpend keyID cost tokens w)) = calls w @ [SqlUpdateKeySpend, SqlUpsertDailyStat]
      \<and> virtual_keys (snd (UpdateSpend keyID cost tokens w)) =
          map (\<lambda>k. if vk_ID k = keyID then k\<lparr>vk_CurrentSpend := vk_CurrentSpend k + cost\<rparr> else k)
              (virtual_keys w)
      \<and> (faulty w SqlUpsertDailyStat \<longrightarrow>
           fst (UpdateSpend keyID cost tokens w) =
             Some (Wrap ''failed to upsert daily stat: '' (Fault SqlUpsertDailyStat))
           \<and> daily_stats (snd (UpdateSpend keyID cost tokens w)) = daily_stats w))"
  by (simp add: UpdateSpend_def db_UpdateKeySpend_def db_UpsertDailyStat_def attempt_def Let_def)

theorem UpdateSpend_stops_at_first_failure_witness:
  "UpdateSpend ''key-1'' (225 / 1000000) 30 spendDownWorld =
     (Some (Wrap ''failed to update key spend: '' (Fault SqlUpdateKeySpend)),
      spendDownWorld\<lparr>calls := [SqlUpdateKeySpend]\<rparr>)
   \<and> calls (snd (UpdateSpend ''key-1'' (225 / 1000000) 30 exampleWorld)) =
       [SqlUpdateKeySpend, SqlUpsertDailyStat]
   \<and> map vk_CurrentSpend (virtual_keys (snd (UpdateSpend ''key-1'' (225 / 1000000) 30 exampleWorld))) =
       [20 + 225 / 1000000]"
  using UpdateSpend_stops_at_first_failure [of spendDownWorld "''key-1''" "225 / 1000000" 30]
        UpdateSpend_stops_at_first_failure [of exampleWorld "''key-1''" "225 / 1000000" 30]
  by (simp add: example_defs)

text \<open>The claim C3 fails where the key-spend increment fails: the daily-stat upsert is
  not attempted.\<close>

theorem UpdateSpend_skips_daily_stat:
  "fst (UpdateSpend ''key-1'' (225 / 1000000) 30 spendDownWorld) =
     Some (Wrap ''failed to update key spend: '' (Fault SqlUpdateKeySpend))
   \<and> calls (snd (UpdateSpend ''key-1'' (225 / 1000000) 30 spendDownWorld)) = [SqlUpdateKeySpend]
   \<and> SqlUpsertDailyStat \<notin> set (calls (snd (UpdateSpend ''key-1'' (225 / 1000000) 30 spendDownWorld)))"
  by (simp add: UpdateSpend_def db_UpdateKeySpend_def attempt_def example_defs Let_def)

subsection \<open>Revocation\<close>

text \<open>C4. After a successful \<^verbatim>\<open>RevokeKey\<close>, \<^verbatim>\<open>ValidateKey\<close> with the key's token does
  not return \<^verbatim>\<open>ErrKeyRevoked\<close>. With the cache purged it returns \<^verbatim>\<open>ErrInvalidKey\<close>: the
  lookup by hash selects only rows that are not revoked, so the branch of
  \<^verbatim>\<open>ValidateKey\<close> that returns \<^verbatim>\<open>ErrKeyRevoked\<close> is never reached (in no world at all,
  by \<open>ValidateKey_never_revoked\<close>). With the configuration still cached, because the
  delete failed and \<^verbatim>\<open>RevokeKey\<close> ignores that, it returns the configuration of the
  revoked key.\<close>

theorem RevokeKey_then_ValidateKey:
  "fst (RevokeKey ''key-1'' ''user-1'' exampleWorld) = None
   \<and> map vk_RevokedAt (virtual_keys (snd (RevokeKey ''key-1'' ''user-1'' exampleWorld))) = [Some 100]
   \<and> fst (ValidateKey exampleLib exampleService ''lum_abc''
            (snd (RevokeKey ''key-1'' ''user-1'' exampleWorld))) = Inl ErrInvalidKey
   \<and> fst (RevokeKey ''key-1'' ''user-1'' staleCacheWorld) = None
   \<and> map vk_RevokedAt (virtual_keys (snd (RevokeKey ''key-1'' ''user-1'' staleCacheWorld))) = [Some 100]
   \<and> fst (ValidateKey exampleLib exampleService ''lum_abc''
            (snd (RevokeKey ''key-1'' ''user-1'' staleCacheWorld))) = Inr exampleConfig"
  by (simp add: RevokeKey_def ValidateKey_def virtualKeyPrefix_def HashKey_def
      example_defs store_defs Let_def)

subsection \<open>Routing\<close>

lemma parseModel_anthropic: "parseModel (''anthropic/'' @ name) = Inr (''anthropic'', name)"
  by (simp add: parseModel_def)

lemma proxyUnified_Forwarded:
  assumes "fst (proxyUnified lib s path requestType r w) = Forwarded u streaming"
  shows "\<exists>config requestData provider actualModel secret.
           fst (extractAndValidateKey lib s r w) = Inr config
         \<and> req_Body r = Object requestData
         \<and> parseModel (extractModel requestData) = Inr (provider, actualModel)
         \<and> IsModelAllowed lib config (extractModel requestData)
         \<and> kc_Providers config provider = Some secret
         \<and> ur_Body u = requestData(''model'' \<mapsto> JString actualModel)
         \<and> (provider = ''openai'' \<and> ur_URL u = openAIBaseURL @ path
              \<and> ur_Headers u = [''Content-Type'' \<mapsto> ''application/json'',
                                 ''Authorization'' \<mapsto> ''Bearer '' @ secret]
            \<or> provider = ''anthropic'' \<and> ur_URL u = anthropicBaseURL @ ''/v1/messages''
              \<and> ur_Headers u = [''Content-Type'' \<mapsto> ''application/json'',
                                 ''x-api-key'' \<mapsto> secret,
                                 ''anthropic-version'' \<mapsto> ''2023-06-01''])"
proof -
  obtain res w1 where e: "extractAndValidateKey lib s r w = (res, w1)"
    by (cases "extractAndValidateKey lib s r w")
  show ?thesis
  proof (cases res)
    case (Inl err)
    with e assms show ?thesis by (simp add: proxyUnified_def)
  next
    case config: (Inr config)
    show ?thesis
    proof (cases "req_Body r")
      case ReadError
      with e config assms show ?thesis by (simp add: proxyUnified_def)
    next
      case InvalidJSON
      with e config assms show ?thesis by (simp add: proxyUnified_def)
    next
      case body: (Object requestData)
      show ?thesis
      proof (cases "parseModel (extractModel requestData)")
        case (Inl err)
        with e config body assms show ?thesis by (simp add: proxyUnified_def)
      next
        case (Inr pm)
        then obtain provider actualModel
          where pm: "parseModel (extractModel requestData) = Inr (provider, actualModel)"
          by (cases pm) simp
        show ?thesis
        proof (cases "kc_Providers config provider")
          case None
          with e config body pm assms show ?thesis
            by (simp add: proxyUnified_def GetProviderKey_def Let_def split: if_splits)
        next
          case (Some secret)
          with e config body pm assms show ?thesis
            by (auto simp: proxyUnified_def GetProviderKey_def Let_def split: if_splits)
        qed
      qed
    qed
  qed
qed

text \<open>C5, as the code has it. On \<^verbatim>\<open>POST /anthropic/v1/messages\<close> the provider is the
  prefix of the body's \<^verbatim>\<open>model\<close> field, as on the other routes. A request of a valid
  key whose model is \<^verbatim>\<open>anthropic/<name>\<close>, allowed for the key, with an Anthropic
  credential configured, is sent to \<^verbatim>\<open>https://api.anthropic.com/v1/messages\<close> with the
  \<^verbatim>\<open>x-api-key\<close> and \<^verbatim>\<open>anthropic-version\<close> headers and the model rewritten to
  \<^verbatim>\<open><name>\<close>; and a request this route sends to that URL has the model prefix
  \<^verbatim>\<open>anthropic\<close>.\<close>

theorem AnthropicMessages_provider_from_model:
  "(fst (extractAndValidateKey lib s r w) = Inr config
      \<and> req_Body r = Object requestData
      \<and> requestData ''model'' = Some (JString (''anthropic/'' @ name))
      \<and> IsModelAllowed lib config (''anthropic/'' @ name)
      \<and> kc_Providers config ''anthropic'' = Some secret
    \<longrightarrow> fst (AnthropicMessages lib s r w) =
          Forwarded \<lparr>ur_Method = ''POST'',
                     ur_URL = ''https://api.anthropic.com/v1/messages'',
                     ur_Headers = [''Content-Type'' \<mapsto> ''application/json'',
                                   ''x-api-key'' \<mapsto> secret,
                                   ''anthropic-version'' \<mapsto> ''2023-06-01''],
                     ur_Body = requestData(''model'' \<mapsto> JString name)\<rparr>
                    (case requestData ''stream'' of Some (JBool b) \<Rightarrow> b | _ \<Rightarrow> False))
   \<and> (fst (AnthropicMessages lib s r w) = Forwarded u streaming
      \<and> ur_URL u = ''https://api.anthropic.com/v1/messages''
    \<longrightarrow> (\<exists>requestData actualModel.
          req_Body r = Object requestData
        \<and> parseModel (extractModel requestData) = Inr (''anthropic'', actualModel)))"
proof (intro conjI impI)
  assume a: "fst (extractAndValidateKey lib s r w) = Inr config
      \<and> req_Body r = Object requestData
      \<and> requestData ''model'' = Some (JString (''anthropic/'' @ name))
      \<and> IsModelAllowed lib config (''anthropic/'' @ name)
      \<and> kc_Providers config ''anthropic'' = Some secret"
  then obtain w1 where e: "extractAndValidateKey lib s r w = (Inr config, w1)"
    by (cases "extractAndValidateKey lib s r w") simp
  from a have m: "extractModel requestData = ''anthropic/'' @ name"
    by (simp add: extractModel_def)
  from a e m show "fst (AnthropicMessages lib s r w) =
          Forwarded \<lparr>ur_Method = ''POST'',
                     ur_URL = ''https://api.anthropic.com/v1/messages'',
                     ur_Headers = [''Content-Type'' \<mapsto> ''application/json'',
                                   ''x-api-key'' \<mapsto> secret,
                                   ''anthropic-version'' \<mapsto> ''2023-06-01''],
                     ur_Body = requestData(''model'' \<mapsto> JString name)\<rparr>
                    (case requestData ''stream'' of Some (JBool b) \<Rightarrow> b | _ \<Rightarrow> False)"
    by (simp add: AnthropicMessages_def proxyUnified_def parseModel_anthropic [simplified]
        GetProviderKey_def anthropicBaseURL_def Let_def)
next
  assume "fst (AnthropicMessages lib s r w) = Forwarded u streaming
      \<and> ur_URL u = ''https://api.anthropic.com/v1/messages''"
  then have f: "fst (proxyUnified lib s ''/v1/messages'' ''anthropic'' r w) = Forwarded u streaming"
    and u: "ur_URL u = ''https://api.anthropic.com/v1/messages''"
    by (simp_all add: AnthropicMessages_def)
  from proxyUnified_Forwarded [OF f] u
  show "\<exists>requestData actualModel.
          req_Body r = Object requestData
        \<and> parseModel (extractModel requestData) = Inr (''anthropic'', actualModel)"
    by (auto simp: openAIBaseURL_def)
qed

theorem AnthropicMessages_provider_from_model_witness:
  "fst (AnthropicMessages exampleLib exampleService
          (exampleRequest ''anthropic/claude-3-haiku-20240307'') exampleWorld) =
     Forwarded \<lparr>ur_Method = ''POST'',
                ur_URL = ''https://api.anthropic.com/v1/messages'',
                ur_Headers = [''Content-Type'' \<mapsto> ''application/json'',
                              ''x-api-key'' \<mapsto> ''sk-ant'',
                              ''anthropic-version'' \<mapsto> ''2023-06-01''],
                ur_Body = [''model'' \<mapsto> JString ''claude-3-haiku-20240307'']\<rparr> False"
  using AnthropicMessages_provider_from_model
          [where lib = exampleLib and s = exampleService and w = exampleWorld
             and r = "exampleRequest ''anthropic/claude-3-haiku-20240307''"
             and config = exampleConfig
             and requestData = "[''model'' \<mapsto> JString ''anthropic/claude-3-haiku-20240307'']"
             and name = "''claude-3-haiku-20240307''" and secret = "''sk-ant''"]
  by (simp add: example_extract IsModelAllowed_def)
     (simp add: exampleRequest_def exampleConfig_def)

text \<open>The claim C5 fails for a model with the prefix \<^verbatim>\<open>openai\<close>: the route sends the
  request to the OpenAI base URL with the \<^verbatim>\<open>Authorization\<close> header.\<close>

theorem AnthropicMessages_openai_prefix:
  "fst (AnthropicMessages exampleLib exampleService (exampleRequest ''openai/gpt-4o'') exampleWorld) =
     Forwarded \<lparr>ur_Method = ''POST'',
                ur_URL = ''https://api.openai.com/v1/messages'',
                ur_Headers = [''Content-Type'' \<mapsto> ''application/json'',
                              ''Authorization'' \<mapsto> ''Bearer sk-openai''],
                ur_Body = [''model'' \<mapsto> JString ''gpt-4o'']\<rparr> False"
  by (simp add: AnthropicMessages_def example_proxy)

subsection \<open>Key update\<close>

text \<open>C10. \<^verbatim>\<open>UpdateKey\<close> keeps the rows of \<^verbatim>\<open>virtual_keys\<close> and their ids, and for every
  row: a budget cap that was set is still set afterwards; when the request has no
  budget cap the stored cap is unchanged; and the cap afterwards is the old one or the
  (non-null) one of the request.\<close>

theorem UpdateKey_keeps_budget_cap:
  "list_all2
     (\<lambda>k k'. vk_ID k' = vk_ID k
        \<and> (vk_BudgetLimit k \<noteq> None \<longrightarrow> vk_BudgetLimit k' \<noteq> None)
        \<and> (ukr_BudgetLimit req = None \<longrightarrow> vk_BudgetLimit k' = vk_BudgetLimit k)
        \<and> (vk_BudgetLimit k' = vk_BudgetLimit k \<or> vk_BudgetLimit k' = ukr_BudgetLimit req))
     (virtual_keys w) (virtual_keys (snd (UpdateKey keyID userID req w)))"
  by (auto simp: UpdateKey_def db_GetVirtualKeyByID_def db_UpdateVirtualKey_def
      cache_DeleteKeyConfig_def attempt_def Let_def setColumns_def list_all2_conv_all_nth
      split: option.splits)

theorem UpdateKey_keeps_budget_cap_witness:
  "map vk_BudgetLimit (virtual_keys (snd (UpdateKey ''key-1'' ''user-1''
       \<lparr>ukr_Name = Some ''renamed'', ukr_AllowedModels = None, ukr_BudgetLimit = None\<rparr>
       exampleWorld))) = [Some 10]
   \<and> map vk_BudgetLimit (virtual_keys (snd (UpdateKey ''key-1'' ''user-1''
       \<lparr>ukr_Name = None, ukr_AllowedModels = None, ukr_BudgetLimit = Some 50\<rparr>
       exampleWorld))) = [Some 50]"
  using UpdateKey_keeps_budget_cap
          [of "\<lparr>ukr_Name = Some ''renamed'', ukr_AllowedModels = None, ukr_BudgetLimit = None\<rparr>"
              exampleWorld "''key-1''" "''user-1''"]
        UpdateKey_keeps_budget_cap
          [of "\<lparr>ukr_Name = None, ukr_AllowedModels = None, ukr_BudgetLimit = Some 50\<rparr>"
              exampleWorld "''key-1''" "''user-1''"]
  by (simp add: UpdateKey_def setColumns_def example_defs store_defs Let_def)

subsection \<open>Sealed credentials\<close>

text \<open>\<^verbatim>\<open>Decrypt\<close> refuses every ciphertext shorter than the nonce, before the library
  is asked to open anything.\<close>

theorem Decrypt_short_ciphertext:
  assumes "length ciphertext < 12"
  shows "(\<exists>err. Decrypt lib s ciphertext = Inl err)
     \<and> (length (encryptionKey s) = 32 \<longrightarrow>
          Decrypt lib s ciphertext = Inl (Errorf ''ciphertext too short''))"
  using assms by (simp add: Decrypt_def nonceSize_def)

theorem Decrypt_short_ciphertext_witness:
  "Decrypt exampleLib exampleService ''0123456789a'' = Inl (Errorf ''ciphertext too short'')"
  using Decrypt_short_ciphertext [of "''0123456789a''" exampleLib exampleService]
  by (simp add: exampleService_def)

text \<open>\<^verbatim>\<open>Encrypt\<close> puts the nonce in front of the sealed text and \<^verbatim>\<open>Decrypt\<close> takes it
  off at the same place: with a key of 32 bytes and a nonce of 12, \<^verbatim>\<open>Decrypt\<close> hands the
  library's \<^verbatim>\<open>Open\<close> exactly the nonce and the sealed text that \<^verbatim>\<open>Encrypt\<close> got from
  \<^verbatim>\<open>Seal\<close>, so it returns the plaintext whenever \<^verbatim>\<open>Open\<close> inverts \<^verbatim>\<open>Seal\<close> there.\<close>

theorem Decrypt_Encrypt:
  assumes "NewKeyService configured = Some s"
      and "length nonce = 12"
  shows "Encrypt lib s (Some nonce) plaintext =
           Inr (nonce @ gcm_Seal lib (encryptionKey s) nonce plaintext)
     \<and> Decrypt lib s (nonce @ gcm_Seal lib (encryptionKey s) nonce plaintext) =
           (case gcm_Open lib (encryptionKey s) nonce
                   (gcm_Seal lib (encryptionKey s) nonce plaintext) of
              None \<Rightarrow> Inl (Errorf ''cipher: message authentication failed'')
            | Some opened \<Rightarrow> Inr opened)"
  using assms
  by (auto simp: NewKeyService_def Encrypt_def Decrypt_def nonceSize_def split: if_splits)

theorem Decrypt_Encrypt_witness:
  "Encrypt exampleLib exampleService (Some ''000000000000'') ''sk-openai'' =
     Inr ''000000000000sk-openai''
   \<and> Decrypt exampleLib exampleService ''000000000000sk-openai'' = Inr ''sk-openai''"
proof -
  have k: "NewKeyService (replicate 40 (CHR ''k'')) = Some exampleService"
    by (simp add: NewKeyService_def exampleService_def)
  have n: "length ''000000000000'' = 12"
    by simp
  from Decrypt_Encrypt [OF k n, of exampleLib "''sk-openai''"]
  show ?thesis
    by (simp add: exampleLib_def)
qed

lemma list_update_changes:
  "i < length xs \<Longrightarrow> b \<noteq> xs ! i \<Longrightarrow> xs[i := b] \<noteq> xs"
  by (simp add: list_update_same_conv)

lemma sealingLib_authentic: "gcm_authentic sealingLib key"
proof -
  have open_eq: "\<And>n c. gcm_Open sealingLib key n c =
      (let p = take ((length c - length n) div 2) c in if c = p @ n @ p then Some p else None)"
    by (simp add: sealingLib_def)
  have seal_eq: "\<And>n p. gcm_Seal sealingLib key n p = p @ n @ p"
    by (simp add: sealingLib_def)
  show ?thesis
    unfolding gcm_authentic_def
  proof (intro allI impI conjI)
    fix nonce plaintext :: string
    show "gcm_Open sealingLib key nonce (gcm_Seal sealingLib key nonce plaintext) = Some plaintext"
      by (simp add: open_eq seal_eq)
  next
    fix nonce plaintext :: string and i b
    assume n: "length nonce = nonceSize" and "i < nonceSize \<and> b \<noteq> nonce ! i"
    then have "nonce[i := b] \<noteq> nonce"
      by (simp add: list_update_changes)
    then show "gcm_Open sealingLib key (nonce[i := b]) (gcm_Seal sealingLib key nonce plaintext) = None"
      by (simp add: open_eq seal_eq)
  next
    fix nonce plaintext :: string and j b
    assume j: "j < length (gcm_Seal sealingLib key nonce plaintext)
                 \<and> b \<noteq> gcm_Seal sealingLib key nonce plaintext ! j"
    let ?c = "(plaintext @ nonce @ plaintext)[j := b]"
    from j have ne: "?c \<noteq> plaintext @ nonce @ plaintext"
      by (simp add: seal_eq list_update_changes)
    have "?c \<noteq> take (length plaintext) ?c @ nonce @ take (length plaintext) ?c"
    proof
      assume eq: "?c = take (length plaintext) ?c @ nonce @ take (length plaintext) ?c"
      show False
      proof (cases "j < length plaintext")
        case True
        then have "?c = plaintext[j := b] @ nonce @ plaintext"
          by (simp add: list_update_append)
        with eq have "plaintext[j := b] = plaintext"
          by simp
        with True ne show False
          by (simp add: list_update_append)
      next
        case False
        then have "take (length plaintext) ?c = plaintext"
          by (simp add: list_update_append)
        with eq ne show False
          by simp
      qed
    qed
    then show "gcm_Open sealingLib key nonce ((gcm_Seal sealingLib key nonce plaintext)[j := b]) = None"
      by (simp add: open_eq seal_eq Let_def)
  qed
qed

text \<open>C7. Under the fixed master key (the 32 bytes \<^verbatim>\<open>NewKeyService\<close> keeps) and with a
  library whose AES-GCM is authentic, for every plaintext and every 12-byte nonce:
  \<^verbatim>\<open>Encrypt\<close> returns the nonce followed by the sealed text, \<^verbatim>\<open>Decrypt\<close> of that
  returns the plaintext, \<^verbatim>\<open>Decrypt\<close> of it with any one byte changed fails, and
  \<^verbatim>\<open>Decrypt\<close> fails on every ciphertext shorter than the nonce.\<close>

theorem Decrypt_Encrypt_authentic:
  assumes "NewKeyService configured = Some s"
      and "gcm_authentic lib (encryptionKey s)"
      and "length nonce = 12"
  shows "Encrypt lib s (Some nonce) plaintext =
           Inr (nonce @ gcm_Seal lib (encryptionKey s) nonce plaintext)
     \<and> Decrypt lib s (nonce @ gcm_Seal lib (encryptionKey s) nonce plaintext) = Inr plaintext
     \<and> (\<forall>i b. i < length (nonce @ gcm_Seal lib (encryptionKey s) nonce plaintext)
              \<and> b \<noteq> (nonce @ gcm_Seal lib (encryptionKey s) nonce plaintext) ! i \<longrightarrow>
           Decrypt lib s ((nonce @ gcm_Seal lib (encryptionKey s) nonce plaintext)[i := b]) =
             Inl (Errorf ''cipher: message authentication failed''))
     \<and> (\<forall>short. length short < 12 \<longrightarrow>
           Decrypt lib s short = Inl (Errorf ''ciphertext too short''))"
proof -
  let ?key = "encryptionKey s"
  let ?sealed = "gcm_Seal lib ?key nonce plaintext"
  from assms(1) have key: "length ?key = 32"
    by (auto simp: NewKeyService_def split: if_splits)
  from assms(2,3) have roundtrip: "gcm_Open lib ?key nonce ?sealed = Some plaintext"
    and nonce_changed: "\<And>i b. i < 12 \<Longrightarrow> b \<noteq> nonce ! i \<Longrightarrow>
          gcm_Open lib ?key (nonce[i := b]) ?sealed = None"
    and sealed_changed: "\<And>j b. j < length ?sealed \<Longrightarrow> b \<noteq> ?sealed ! j \<Longrightarrow>
          gcm_Open lib ?key nonce (?sealed[j := b]) = None"
    by (simp_all add: gcm_authentic_def nonceSize_def)
  have enc: "Encrypt lib s (Some nonce) plaintext = Inr (nonce @ ?sealed)"
    using key by (simp add: Encrypt_def)
  have dec: "Decrypt lib s (nonce @ ?sealed) = Inr plaintext"
    using key assms(3) roundtrip by (simp add: Decrypt_def nonceSize_def)
  have tampered: "Decrypt lib s ((nonce @ ?sealed)[i := b]) =
        Inl (Errorf ''cipher: message authentication failed'')"
    if "i < length (nonce @ ?sealed)" "b \<noteq> (nonce @ ?sealed) ! i" for i b
  proof (cases "i < 12")
    case True
    with that assms(3) have "gcm_Open lib ?key (nonce[i := b]) ?sealed = None"
      by (intro nonce_changed) (simp_all add: nth_append)
    with True key assms(3) show ?thesis
      by (simp add: Decrypt_def nonceSize_def list_update_append)
  next
    case False
    with that assms(3) have "gcm_Open lib ?key nonce (?sealed[i - 12 := b]) = None"
      by (intro sealed_changed) (simp_all add: nth_append)
    with False key assms(3) show ?thesis
      by (simp add: Decrypt_def nonceSize_def list_update_append)
  qed
  have short: "Decrypt lib s short = Inl (Errorf ''ciphertext too short'')"
    if "length short < 12" for short
    using key that by (simp add: Decrypt_def nonceSize_def)
  from enc dec tampered short show ?thesis
    by blast
qed

theorem Decrypt_Encrypt_authentic_witness:
  "Encrypt sealingLib exampleService (Some ''000000000000'') ''sk-ant'' =
     Inr ''000000000000sk-ant000000000000sk-ant''
   \<and> Decrypt sealingLib exampleService ''000000000000sk-ant000000000000sk-ant'' = Inr ''sk-ant''
   \<and> Decrypt sealingLib exampleService ''000000000000sk-bnt000000000000sk-ant'' =
       Inl (Errorf ''cipher: message authentication failed'')
   \<and> Decrypt sealingLib exampleService ''0123456789a'' = Inl (Errorf ''ciphertext too short'')"
proof -
  have k: "NewKeyService (replicate 40 (CHR ''k'')) = Some exampleService"
    by (simp add: NewKeyService_def exampleService_def)
  have n: "length ''000000000000'' = 12"
    by simp
  have u: "''000000000000sk-bnt000000000000sk-ant'' =
           (''000000000000'' @ gcm_Seal sealingLib (encryptionKey exampleService)
                                 ''000000000000'' ''sk-ant'')[15 := CHR ''b'']"
    by (simp add: sealingLib_def)
  from Decrypt_Encrypt_authentic [OF k sealingLib_authentic n, of "''sk-ant''"]
  have "Encrypt sealingLib exampleService (Some ''000000000000'') ''sk-ant'' =
          Inr ''000000000000sk-ant000000000000sk-ant''"
    and "Decrypt sealingLib exampleService ''000000000000sk-ant000000000000sk-ant'' = Inr ''sk-ant''"
    and t: "\<And>i b. i < 36 \<Longrightarrow> b \<noteq> ''000000000000sk-ant000000000000sk-ant'' ! i \<Longrightarrow>
          Decrypt sealingLib exampleService (''000000000000sk-ant000000000000sk-ant''[i := b]) =
            Inl (Errorf ''cipher: message authentication failed'')"
    and "Decrypt sealingLib exampleService ''0123456789a'' = Inl (Errorf ''ciphertext too short'')"
    by (simp_all add: sealingLib_def)
  moreover from t [of 15 "CHR ''b''"]
  have "Decrypt sealingLib exampleService ''000000000000sk-bnt000000000000sk-ant'' =
          Inl (Errorf ''cipher: message authentication failed'')"
    by simp
  ultimately show ?thesis
    by blast
qed

end
